theory Spec2Isabelle
  imports Complex_Main "HOL-Library.Word"
begin

unbundle bit_operations_syntax

section \<open>Numbers\<close>

text \<open>
  The tile arithmetic of \<^verbatim>\<open>TileBoundingBoxUtils\<close> and the zoom selection of
  \<^verbatim>\<open>GeoPackageTileRetriever\<close> work on JavaScript numbers. Coordinates, lengths and
  pixel positions are modelled as \<^typ>\<open>real\<close>: the rounding and the overflow of IEEE
  doubles are not modelled, so a sum such as \<open>-H + (x + 1) \<cdot> tileSize\<close> is exact here and
  rounded in the code. The theorems below that speak of one concrete input use inputs at
  which the result of the code does not depend on that rounding. Tile indices, zoom levels
  and matrix sizes are modelled as \<^typ>\<open>int\<close> or
  \<^typ>\<open>nat\<close>. The 32-bit operators \<^verbatim>\<open>~~\<close> and \<^verbatim>\<open><<\<close> are modelled on
  \<^typ>\<open>32 word\<close>, with their wrap-around.
\<close>

definition Math_round :: "real \<Rightarrow> int" where
  \<comment> \<open>\<^verbatim>\<open>Math.round\<close>: the nearest integer, a tie going up.\<close>
  "Math_round v = \<lfloor>v + 1 / 2\<rfloor>"

definition Math_floor :: "real \<Rightarrow> int" where
  "Math_floor v = \<lfloor>v\<rfloor>"

definition Math_ceil :: "real \<Rightarrow> int" where
  "Math_ceil v = \<lceil>v\<rceil>"

definition toInt32 :: "real \<Rightarrow> int" where
  \<comment> \<open>\<^verbatim>\<open>~~v\<close>: truncate towards zero, reduce modulo \<open>2^32\<close>, read as signed.\<close>
  "toInt32 v = sint (word_of_int (if 0 \<le> v then \<lfloor>v\<rfloor> else \<lceil>v\<rceil>) :: 32 word)"

definition shiftLeftOne :: "nat \<Rightarrow> int" where
  \<comment> \<open>\<^verbatim>\<open>1 << zoom\<close>: the shift count is taken modulo 32 and the result is a
      signed 32-bit integer.\<close>
  "shiftLeftOne zoom = sint (push_bit (zoom mod 32) (1 :: 32 word))"

section \<open>Bounding boxes and tile grids\<close>

text \<open>
  Modelled from the spec: the classes \<^verbatim>\<open>BoundingBox\<close> and \<^verbatim>\<open>TileGrid\<close> are imported by
  the sources and are not among them. A bounding box is the four bounds
  \<open>{minX, minY, maxX, maxY}\<close> of section 3 of the specification, under the names the
  sources read them by (\<^verbatim>\<open>minLongitude\<close>, \<^verbatim>\<open>getMinLongitude()\<close>, ...); a tile grid is
  the four inclusive tile indices. The sources call the two constructors with the
  arguments in two orders (\<^verbatim>\<open>new BoundingBox(minLon, minLat, maxLon, maxLat)\<close> in the
  functions that use the getters, \<^verbatim>\<open>new BoundingBox(minLon, maxLon, minLat, maxLat)\<close> in
  the functions that read the fields); every call is modelled by the record that holds
  each argument in the field the argument is named for.
\<close>

record BoundingBox =
  minLongitude :: real
  minLatitude :: real
  maxLongitude :: real
  maxLatitude :: real

record TileGrid =
  min_x :: int
  min_y :: int
  max_x :: int
  max_y :: int

definition width_bb :: "BoundingBox \<Rightarrow> real" where
  \<comment> \<open>Modelled from the spec: the property \<^verbatim>\<open>boundingBox.width\<close> of the absent class,
      \<open>box.maxX - box.minX\<close> in section 4.1.\<close>
  "width_bb b = maxLongitude b - minLongitude b"

definition height_bb :: "BoundingBox \<Rightarrow> real" where
  \<comment> \<open>Modelled from the spec: the property \<^verbatim>\<open>boundingBox.height\<close> of the absent class,
      \<open>box.maxY - box.minY\<close> in section 4.1.\<close>
  "height_bb b = maxLatitude b - minLatitude b"

section \<open>Zoom-level remapping of tile grids\<close>

text \<open>
  \<^verbatim>\<open>tileGridMinZoomIncrease\<close>, \<^verbatim>\<open>tileGridMaxZoomIncrease\<close>, \<^verbatim>\<open>tileGridMinZoomDecrease\<close> and
  \<^verbatim>\<open>tileGridMaxZoomDecrease\<close>. \<^verbatim>\<open>Math.pow(2, zoomLevels)\<close> is \<open>2 ^ zoomLevels\<close> for the
  level counts the callers pass (positive integers). Tile indices are unbounded integers;
  the casts \<^verbatim>\<open>(long)\<close> of the text are applied to whole numbers and change nothing.
\<close>

definition tileGridMinZoomIncrease :: "int \<Rightarrow> nat \<Rightarrow> int" where
  "tileGridMinZoomIncrease mn zoomLevels = mn * 2 ^ zoomLevels"

definition tileGridMaxZoomIncrease :: "int \<Rightarrow> nat \<Rightarrow> int" where
  "tileGridMaxZoomIncrease mx zoomLevels = (mx + 1) * 2 ^ zoomLevels - 1"

definition tileGridMinZoomDecrease :: "int \<Rightarrow> nat \<Rightarrow> int" where
  "tileGridMinZoomDecrease mn zoomLevels = Math_floor (of_int mn / 2 ^ zoomLevels)"

definition tileGridMaxZoomDecrease :: "int \<Rightarrow> nat \<Rightarrow> int" where
  "tileGridMaxZoomDecrease mx zoomLevels = Math_ceil (of_int (mx + 1) / 2 ^ zoomLevels - 1)"

definition tileGridZoomIncrease :: "TileGrid \<Rightarrow> nat \<Rightarrow> TileGrid" where
  "tileGridZoomIncrease tileGrid zoomLevels =
     (let minX = tileGridMinZoomIncrease (min_x tileGrid) zoomLevels;
          maxX = tileGridMaxZoomIncrease (max_x tileGrid) zoomLevels;
          minY = tileGridMinZoomIncrease (min_y tileGrid) zoomLevels;
          maxY = tileGridMaxZoomIncrease (max_y tileGrid) zoomLevels
      in \<lparr>min_x = minX, min_y = minY, max_x = maxX, max_y = maxY\<rparr>)"

definition tileGridZoomDecrease :: "TileGrid \<Rightarrow> nat \<Rightarrow> TileGrid" where
  "tileGridZoomDecrease tileGrid zoomLevels =
     (let minX = tileGridMinZoomDecrease (min_x tileGrid) zoomLevels;
          maxX = tileGridMaxZoomDecrease (max_x tileGrid) zoomLevels;
          minY = tileGridMinZoomDecrease (min_y tileGrid) zoomLevels;
          maxY = tileGridMaxZoomDecrease (max_y tileGrid) zoomLevels
      in \<lparr>min_x = minX, min_y = minY, max_x = maxX, max_y = maxY\<rparr>)"

definition tileGridZoom :: "TileGrid \<Rightarrow> int \<Rightarrow> int \<Rightarrow> TileGrid" where
  "tileGridZoom tileGrid fromZoom toZoom =
     (let zoomChange = toZoom - fromZoom
      in if zoomChange > 0 then tileGridZoomIncrease tileGrid (nat zoomChange)
         else if zoomChange < 0 then tileGridZoomDecrease tileGrid (nat \<bar>zoomChange\<bar>)
         else tileGrid)"

section \<open>Tile addressing in an arbitrary tile matrix\<close>

text \<open>
  \<^verbatim>\<open>getTileColumn\<close> and \<^verbatim>\<open>getTileRow\<close> round the quotient with \<^verbatim>\<open>Math.round\<close>;
  \<^verbatim>\<open>getTileColumnWithTotalBoundingBox\<close> and \<^verbatim>\<open>getRowWithTotalBoundingBox\<close> truncate it
  with \<^verbatim>\<open>~~\<close>. The two row functions differ at the edges of the total box as well.
\<close>

definition getTileColumn :: "BoundingBox \<Rightarrow> int \<Rightarrow> real \<Rightarrow> int" where
  "getTileColumn totalBox matrixWidth longitude =
     (let minX = minLongitude totalBox;
          maxX = maxLongitude totalBox
      in if longitude < minX then - 1
         else if longitude \<ge> maxX then matrixWidth
         else (let matrixWidthMeters = maxLongitude totalBox - minLongitude totalBox;
                   tileWidth = matrixWidthMeters / of_int matrixWidth
               in Math_round ((longitude - minX) / tileWidth)))"

definition getTileRow :: "BoundingBox \<Rightarrow> int \<Rightarrow> real \<Rightarrow> int" where
  "getTileRow totalBox matrixHeight latitude =
     (let minY = minLatitude totalBox;
          maxY = maxLatitude totalBox
      in if latitude \<le> minY then matrixHeight
         else if latitude > maxY then - 1
         else (let matrixHeightMeters = maxLatitude totalBox - minLatitude totalBox;
                   tileHeight = matrixHeightMeters / of_int matrixHeight
               in Math_round ((maxY - latitude) / tileHeight)))"

definition getTileColumnWithTotalBoundingBox :: "BoundingBox \<Rightarrow> int \<Rightarrow> real \<Rightarrow> int" where
  "getTileColumnWithTotalBoundingBox webMercatorTotalBox matrixWidth longitude =
     (let minX = minLongitude webMercatorTotalBox;
          maxX = maxLongitude webMercatorTotalBox
      in if longitude < minX then - 1
         else if longitude \<ge> maxX then matrixWidth
         else (let matrixWidthMeters = maxX - minX;
                   tileWidth = matrixWidthMeters / of_int matrixWidth;
                   tileIdDouble = (longitude - minX) / tileWidth
               in toInt32 tileIdDouble))"

definition getRowWithTotalBoundingBox :: "BoundingBox \<Rightarrow> int \<Rightarrow> real \<Rightarrow> int" where
  "getRowWithTotalBoundingBox webMercatorTotalBox matrixHeight latitude =
     (let minY = minLatitude webMercatorTotalBox;
          maxY = maxLatitude webMercatorTotalBox
      in if latitude < minY then matrixHeight
         else if latitude \<ge> maxY then - 1
         else (let matrixHeightMeters = maxY - minY;
                   tileHeight = matrixHeightMeters / of_int matrixHeight;
                   tileIdDouble = (maxY - latitude) / tileHeight
               in toInt32 tileIdDouble))"

definition getTileGridWithTotalBoundingBox ::
  "BoundingBox \<Rightarrow> int \<Rightarrow> int \<Rightarrow> BoundingBox \<Rightarrow> TileGrid" where
  "getTileGridWithTotalBoundingBox totalBoundingBox matrixWidth matrixHeight boundingBox =
     (let minColumn0 = getTileColumnWithTotalBoundingBox totalBoundingBox matrixWidth
                         (minLongitude boundingBox);
          maxColumn0 = getTileColumnWithTotalBoundingBox totalBoundingBox matrixWidth
                         (maxLongitude boundingBox);
          inColumns = (minColumn0 < matrixWidth \<and> maxColumn0 \<ge> 0);
          minColumn = (if inColumns \<and> minColumn0 < 0 then 0 else minColumn0);
          maxColumn = (if inColumns \<and> maxColumn0 \<ge> matrixWidth then matrixWidth - 1
                       else maxColumn0);
          maxRow0 = getRowWithTotalBoundingBox totalBoundingBox matrixHeight
                      (minLatitude boundingBox);
          minRow0 = getRowWithTotalBoundingBox totalBoundingBox matrixHeight
                      (maxLatitude boundingBox);
          inRows = (minRow0 < matrixHeight \<and> maxRow0 \<ge> 0);
          minRow = (if inRows \<and> minRow0 < 0 then 0 else minRow0);
          maxRow = (if inRows \<and> maxRow0 \<ge> matrixHeight then matrixHeight - 1 else maxRow0)
      in \<lparr>min_x = minColumn, min_y = minRow, max_x = maxColumn, max_y = maxRow\<rparr>)"

text \<open>
  The tile column and tile row as section 4.4 of the specification words them, for
  comparison with the four functions above.
\<close>

definition tileColumn_spec :: "BoundingBox \<Rightarrow> int \<Rightarrow> real \<Rightarrow> int" where
  "tileColumn_spec totalBox matrixWidth longitude =
     (if longitude < minLongitude totalBox then - 1
      else if longitude \<ge> maxLongitude totalBox then matrixWidth
      else \<lfloor>(longitude - minLongitude totalBox) /
             ((maxLongitude totalBox - minLongitude totalBox) / of_int matrixWidth)\<rfloor>)"

definition tileRow_spec :: "BoundingBox \<Rightarrow> int \<Rightarrow> real \<Rightarrow> int" where
  "tileRow_spec totalBox matrixHeight latitude =
     (if latitude \<ge> maxLatitude totalBox then - 1
      else if latitude < minLatitude totalBox then matrixHeight
      else \<lfloor>(maxLatitude totalBox - latitude) /
             ((maxLatitude totalBox - minLatitude totalBox) / of_int matrixHeight)\<rfloor>)"

section \<open>Tile addressing in the square world scheme\<close>

text \<open>
  The constant \<^verbatim>\<open>ProjectionConstants.WEB_MERCATOR_HALF_WORLD_WIDTH\<close> belongs to a library
  outside the sources; the functions take it as their first argument \<open>H\<close>
  (\<open>worldHalfWidth\<close> in section 4.2 of the specification).

  The sources hold three functions for the number of tiles per side:
  \<^verbatim>\<open>tilesPerSide\<close> as \<^verbatim>\<open>Math.pow(2, zoom)\<close>, an earlier \<^verbatim>\<open>tilesPerSide\<close> as
  \<^verbatim>\<open>Math.round(Math.pow(2, zoom))\<close>, and \<^verbatim>\<open>tilesPerSideWithZoom\<close> as \<^verbatim>\<open>1 << zoom\<close>.
\<close>

definition tilesPerSide :: "nat \<Rightarrow> real" where
  "tilesPerSide zoom = 2 ^ zoom"

definition tilesPerSide_rounded :: "nat \<Rightarrow> int" where
  "tilesPerSide_rounded zoom = Math_round (2 ^ zoom)"

definition tilesPerSideWithZoom :: "nat \<Rightarrow> int" where
  "tilesPerSideWithZoom zoom = shiftLeftOne zoom"

definition tileSizeWithTilesPerSide :: "real \<Rightarrow> int \<Rightarrow> real" where
  "tileSizeWithTilesPerSide H n = (2 * H) / of_int n"

definition tileSize :: "real \<Rightarrow> real \<Rightarrow> real" where
  "tileSize H n = (2 * H) / n"

record TileOptions =
  opt_tileSize :: "real option"
  opt_buffer :: "real option"

text \<open>
  The two loops of \<^verbatim>\<open>getWebMercatorBoundingBoxFromXYZ\<close> that bring \<open>x\<close> between \<open>0\<close> and
  \<^verbatim>\<open>tilesPerSide\<close>. A loop that does not end has the value \<open>None\<close>.
\<close>

partial_function (option) correctX_up :: "int \<Rightarrow> int \<Rightarrow> int option" where
  "correctX_up n x = (if x < 0 then correctX_up n (x + n) else Some x)"

partial_function (option) correctX_down :: "int \<Rightarrow> int \<Rightarrow> int option" where
  "correctX_down n x = (if x \<ge> n then correctX_down n (x - n) else Some x)"

definition meterBuffer_of :: "real \<Rightarrow> TileOptions option \<Rightarrow> real" where
  \<comment> \<open>\<^verbatim>\<open>if (options && options.buffer && options.tileSize)\<close>: an absent or zero
      number is falsy.\<close>
  "meterBuffer_of tileSz options =
     (case options of
        None \<Rightarrow> 0
      | Some opts \<Rightarrow>
          (case (opt_buffer opts, opt_tileSize opts) of
             (Some pixelBuffer, Some optTileSize) \<Rightarrow>
               if pixelBuffer \<noteq> 0 \<and> optTileSize \<noteq> 0
               then (let metersPerPixel = tileSz / optTileSize
                     in metersPerPixel * pixelBuffer)
               else 0
           | _ \<Rightarrow> 0))"

definition getWebMercatorBoundingBoxFromXYZ ::
  "real \<Rightarrow> int \<Rightarrow> int \<Rightarrow> nat \<Rightarrow> TileOptions option \<Rightarrow> BoundingBox option" where
  "getWebMercatorBoundingBoxFromXYZ H x y zoom options =
     (let tilesPerSide = tilesPerSideWithZoom zoom;
          tileSize = tileSizeWithTilesPerSide H tilesPerSide
      in case correctX_up tilesPerSide x of
           None \<Rightarrow> None
         | Some x1 \<Rightarrow>
            (case correctX_down tilesPerSide x1 of
               None \<Rightarrow> None
             | Some x2 \<Rightarrow>
                (let meterBuffer = meterBuffer_of tileSize options;
                     minLon = - 1 * H + of_int x2 * tileSize - meterBuffer;
                     maxLon = - 1 * H + of_int (x2 + 1) * tileSize + meterBuffer;
                     minLat = H - of_int (y + 1) * tileSize - meterBuffer;
                     maxLat = H - of_int y * tileSize + meterBuffer
                 in Some \<lparr>minLongitude = max (- 1 * H) minLon,
                          minLatitude = max (- 1 * H) minLat,
                          maxLongitude = min H maxLon,
                          maxLatitude = min H maxLat\<rparr>)))"

definition webMercatorTileBox :: "real \<Rightarrow> BoundingBox \<Rightarrow> nat \<Rightarrow> BoundingBox" where
  \<comment> \<open>The result is a \<^verbatim>\<open>BoundingBox\<close> that holds tile indices:
      \<^verbatim>\<open>new BoundingBox(minX, maxX, minY, maxY)\<close>.\<close>
  "webMercatorTileBox H webMercatorBoundingBox zoom =
     (let tilesPerSide = tilesPerSideWithZoom zoom;
          tileSize = tileSizeWithTilesPerSide H tilesPerSide;
          minLonClip = max (- H) (minLongitude webMercatorBoundingBox);
          maxLonClip = min H (maxLongitude webMercatorBoundingBox);
          minLatClip = max (- H) (minLatitude webMercatorBoundingBox);
          maxLatClip = min H (maxLatitude webMercatorBoundingBox);
          minX = Math_floor ((minLonClip + H) / tileSize);
          maxX = max 0 (Math_ceil ((maxLonClip + H) / tileSize) - 1);
          minY = Math_floor ((H - maxLatClip) / tileSize);
          maxY = max 0 (Math_ceil ((H - minLatClip) / tileSize) - 1)
      in \<lparr>minLongitude = of_int minX, minLatitude = of_int minY,
          maxLongitude = of_int maxX, maxLatitude = of_int maxY\<rparr>)"

definition getTileGridFromBoundingBox ::
  "real \<Rightarrow> real \<Rightarrow> BoundingBox \<Rightarrow> nat \<Rightarrow> TileGrid" where
  \<comment> \<open>The variant that rounds with \<^verbatim>\<open>Math.round\<close>; \<open>precision\<close> stands for the
      constant \<^verbatim>\<open>ProjectionConstants.WEB_MERCATOR_PRECISION\<close> of the outside library.\<close>
  "getTileGridFromBoundingBox H precision webMercatorBoundingBox zoom =
     (let tilesPerSide = tilesPerSide_rounded zoom;
          tileSize = tileSize H (of_int tilesPerSide);
          minX = Math_round ((minLongitude webMercatorBoundingBox + H) / tileSize);
          tempMaxX = (maxLongitude webMercatorBoundingBox + H) / tileSize;
          maxX = min (Math_round (tempMaxX - precision)) (tilesPerSide - 1);
          minY = Math_round (((maxLatitude webMercatorBoundingBox - H) * - 1) / tileSize);
          tempMaxY = ((minLatitude webMercatorBoundingBox - H) * - 1) / tileSize;
          maxY = min (Math_round (tempMaxY - precision)) (tilesPerSide - 1)
      in \<lparr>min_x = minX, min_y = minY, max_x = maxX, max_y = maxY\<rparr>)"

section \<open>Overlap of bounding boxes\<close>

definition overlap_bb :: "BoundingBox \<Rightarrow> BoundingBox \<Rightarrow> bool \<Rightarrow> BoundingBox option" where
  \<comment> \<open>Modelled from the spec: the method \<^verbatim>\<open>boundingBox.overlap(bbox2, allowEmpty)\<close> of the
      absent class \<^verbatim>\<open>BoundingBox\<close>. Section 4.1: intersect with \<open>x1 = max(minX)\<close>,
      \<open>y1 = max(minY)\<close>, \<open>x2 = min(maxX)\<close>, \<open>y2 = min(maxY)\<close>; the result is none if
      \<open>x1 > x2\<close> or \<open>y1 > y2\<close>; a degenerate box (zero width or zero height, the ranges
      touch) is returned when \<open>allowEmpty\<close> is set and not otherwise, as the doc comment of
      the parameter in the sources has it (\<^verbatim>\<open>allow empty latitude and/or longitude ranges\<close>).
      \<open>None\<close> is \<^verbatim>\<open>null\<close>.\<close>
  "overlap_bb a b allowEmpty =
     (let x1 = max (minLongitude a) (minLongitude b);
          y1 = max (minLatitude a) (minLatitude b);
          x2 = min (maxLongitude a) (maxLongitude b);
          y2 = min (maxLatitude a) (maxLatitude b)
      in if (x1 < x2 \<and> y1 < y2) \<or> (allowEmpty \<and> x1 \<le> x2 \<and> y1 \<le> y2)
         then Some \<lparr>minLongitude = x1, minLatitude = y1, maxLongitude = x2, maxLatitude = y2\<rparr>
         else None)"

text \<open>
  \<^verbatim>\<open>TileBoundingBoxUtils.overlap\<close> on the values of the two boxes: \<open>bbox2\<close> is the second
  box, or its shifted copy.
\<close>

definition overlap_adjustment :: "BoundingBox \<Rightarrow> BoundingBox \<Rightarrow> real \<Rightarrow> real" where
  "overlap_adjustment boundingBox boundingBox2 maxLon =
     (if maxLon > 0
      then (if minLongitude boundingBox > maxLongitude boundingBox2 then maxLon * 2
            else if maxLongitude boundingBox < minLongitude boundingBox2 then maxLon * - 2
            else 0)
      else 0)"

definition overlap :: "BoundingBox \<Rightarrow> BoundingBox \<Rightarrow> bool \<Rightarrow> real \<Rightarrow> BoundingBox option" where
  "overlap boundingBox boundingBox2 allowEmpty maxLon =
     (let adjustment = overlap_adjustment boundingBox boundingBox2 maxLon;
          bbox2 = (if adjustment \<noteq> 0
                   then boundingBox2
                          \<lparr>minLongitude := minLongitude boundingBox2 + adjustment,
                           maxLongitude := maxLongitude boundingBox2 + adjustment\<rparr>
                   else boundingBox2)
      in overlap_bb boundingBox bbox2 allowEmpty)"

text \<open>
  The same function on objects. The heap is the list of the bounding boxes allocated so
  far and a reference is an index into it, so that the two arguments can be one object.

  \<^verbatim>\<open>copy()\<close>, the setters and the method \<^verbatim>\<open>overlap\<close> belong to the absent class
  \<^verbatim>\<open>BoundingBox\<close>; section 3 of the specification has its operations return new
  instances.
\<close>

type_synonym heap = "BoundingBox list"

definition copy_bb :: "heap \<Rightarrow> nat \<Rightarrow> nat \<times> heap" where
  \<comment> \<open>Modelled from the spec: \<^verbatim>\<open>copy()\<close> of the absent class allocates a new box with
      the bounds of its receiver and returns the reference to it.\<close>
  "copy_bb h r = (length h, h @ [h ! r])"

definition setMinLongitude :: "heap \<Rightarrow> nat \<Rightarrow> real \<Rightarrow> heap" where
  \<comment> \<open>Modelled from the spec: the setter of the absent class writes the field
      \<open>minLongitude\<close> of its receiver.\<close>
  "setMinLongitude h r v = h[r := (h ! r)\<lparr>minLongitude := v\<rparr>]"

definition setMaxLongitude :: "heap \<Rightarrow> nat \<Rightarrow> real \<Rightarrow> heap" where
  \<comment> \<open>Modelled from the spec: the setter of the absent class writes the field
      \<open>maxLongitude\<close> of its receiver.\<close>
  "setMaxLongitude h r v = h[r := (h ! r)\<lparr>maxLongitude := v\<rparr>]"

definition overlap_method :: "heap \<Rightarrow> nat \<Rightarrow> nat \<Rightarrow> bool \<Rightarrow> nat option \<times> heap" where
  \<comment> \<open>Modelled from the spec: the method \<^verbatim>\<open>boundingBox.overlap(bbox2, allowEmpty)\<close> of
      the absent class on objects. It reads its two boxes and returns \<^verbatim>\<open>null\<close> or a
      new box, the one of \<open>overlap_bb\<close>.\<close>
  "overlap_method h r r2 allowEmpty =
     (case overlap_bb (h ! r) (h ! r2) allowEmpty of
        None \<Rightarrow> (None, h)
      | Some box \<Rightarrow> (Some (length h), h @ [box]))"

definition overlap_heap :: "heap \<Rightarrow> nat \<Rightarrow> nat \<Rightarrow> bool \<Rightarrow> real \<Rightarrow> nat option \<times> heap" where
  "overlap_heap h boundingBox boundingBox2 allowEmpty maxLon =
     (let adjustment = overlap_adjustment (h ! boundingBox) (h ! boundingBox2) maxLon
      in if adjustment \<noteq> 0
         then (let (bbox2, h1) = copy_bb h boundingBox2;
                   h2 = setMinLongitude h1 bbox2 (minLongitude (h1 ! bbox2) + adjustment);
                   h3 = setMaxLongitude h2 bbox2 (maxLongitude (h2 ! bbox2) + adjustment)
               in overlap_method h3 boundingBox bbox2 allowEmpty)
         else overlap_method h boundingBox boundingBox2 allowEmpty)"

section \<open>Pixel mapping\<close>

text \<open>
  A division by zero gives \<^verbatim>\<open>Infinity\<close>, \<^verbatim>\<open>-Infinity\<close> or \<^verbatim>\<open>NaN\<close> in JavaScript, and
  every product or sum with one of them is one of them again. The pixel functions return
  \<open>None\<close> for the result of a division by zero and \<open>Some\<close> of the exact real number
  otherwise. \<open>None\<close> is a value that is not finite; \<open>Some\<close> says nothing about the size
  of the value in doubles, where a quotient by a tiny divisor overflows. The sources hold each
  function twice (once with \<^verbatim>\<open>getMaxLongitude() - getMinLongitude()\<close>, once with
  \<^verbatim>\<open>boundingBox.width\<close>); the two compute the same.
\<close>

definition js_divide :: "real \<Rightarrow> real \<Rightarrow> real option" where
  "js_divide a b = (if b = 0 then None else Some (a / b))"

definition getXPixel :: "real \<Rightarrow> BoundingBox \<Rightarrow> real \<Rightarrow> real option" where
  "getXPixel width boundingBox longitude =
     map_option (\<lambda>percentage. percentage * width)
       (js_divide (longitude - minLongitude boundingBox) (width_bb boundingBox))"

definition getLongitudeFromPixel ::
  "real \<Rightarrow> BoundingBox \<Rightarrow> BoundingBox \<Rightarrow> real \<Rightarrow> real option" where
  "getLongitudeFromPixel width boundingBox tileBoundingBox pixel =
     map_option (\<lambda>percentage. percentage * width_bb tileBoundingBox + minLongitude boundingBox)
       (js_divide pixel width)"

definition getYPixel :: "real \<Rightarrow> BoundingBox \<Rightarrow> real \<Rightarrow> real option" where
  "getYPixel height boundingBox latitude =
     map_option (\<lambda>percentage. percentage * height)
       (js_divide (maxLatitude boundingBox - latitude) (height_bb boundingBox))"

definition getLatitudeFromPixel ::
  "real \<Rightarrow> BoundingBox \<Rightarrow> BoundingBox \<Rightarrow> real \<Rightarrow> real option" where
  "getLatitudeFromPixel height boundingBox tileBoundingBox pixel =
     map_option (\<lambda>percentage. maxLatitude boundingBox - percentage * height_bb tileBoundingBox)
       (js_divide pixel height)"

section \<open>The tile retriever\<close>

text \<open>
  \<^verbatim>\<open>determineGeoPackageZoomLevel\<close>. The loop runs over \<^verbatim>\<open>this.tileDao.widths\<close> with the
  index \<open>i\<close> and keeps the zoom level of the last width that passes the test;
  \<open>None\<close> is \<^verbatim>\<open>undefined\<close>. The inverse projection of \<^verbatim>\<open>proj4\<close> is the argument
  \<open>inverse_proj\<close>.
\<close>

definition zoomMatches :: "real \<Rightarrow> real \<Rightarrow> bool" where
  "zoomMatches width tileWidth =
     (let difference = \<bar>width - tileWidth\<bar>;
          tolerance = 0.001 * tileWidth
      in tileWidth \<le> width \<or> difference \<le> tolerance)"

fun determineZoom_loop :: "real \<Rightarrow> int \<Rightarrow> real list \<Rightarrow> nat \<Rightarrow> int option \<Rightarrow> int option" where
  "determineZoom_loop width maxZoom [] i gpZoom = gpZoom"
| "determineZoom_loop width maxZoom (tileWidth # rest) i gpZoom =
     determineZoom_loop width maxZoom rest (Suc i)
       (if zoomMatches width tileWidth then Some (maxZoom - int i) else gpZoom)"

definition determineGeoPackageZoomLevel ::
  "(real \<times> real \<Rightarrow> real \<times> real) \<Rightarrow> real list \<Rightarrow> int \<Rightarrow> BoundingBox \<Rightarrow> int option" where
  "determineGeoPackageZoomLevel inverse_proj widths maxZoom webMercatorBoundingBox =
     (let ne = inverse_proj (maxLongitude webMercatorBoundingBox, maxLatitude webMercatorBoundingBox);
          sw = inverse_proj (minLongitude webMercatorBoundingBox, minLatitude webMercatorBoundingBox);
          width = fst ne - fst sw
      in determineZoom_loop width maxZoom widths 0 None)"

text \<open>
  The zoom selection as step 2 of section 4.6 of the specification words it: the largest
  zoom level (the least index, since the level of index \<open>i\<close> is \<open>maxZoom - i\<close>) whose
  stored tile width is at least the requested width or within 0.1% of it.
\<close>

definition qualifies_spec :: "real \<Rightarrow> real \<Rightarrow> bool" where
  "qualifies_spec w tileWidth = (tileWidth \<ge> w \<or> \<bar>w - tileWidth\<bar> \<le> 0.001 * tileWidth)"

fun zoomLevel_spec_from :: "real \<Rightarrow> int \<Rightarrow> real list \<Rightarrow> nat \<Rightarrow> int option" where
  "zoomLevel_spec_from w maxZoom [] i = None"
| "zoomLevel_spec_from w maxZoom (tileWidth # rest) i =
     (if qualifies_spec w tileWidth then Some (maxZoom - int i)
      else zoomLevel_spec_from w maxZoom rest (Suc i))"

definition zoomLevel_spec :: "real \<Rightarrow> int \<Rightarrow> real list \<Rightarrow> int option" where
  "zoomLevel_spec w maxZoom widths = zoomLevel_spec_from w maxZoom widths 0"

text \<open>
  \<^verbatim>\<open>getTileWithBounds\<close> and \<^verbatim>\<open>retrieveTileResults\<close>. The tile DAO, the reprojection and
  the tile creator are outside the sources: they are the fields of the record
  \<open>Collaborators\<close>, after the interfaces of section 6 of the specification. A call to
  one of them is recorded as an event, and a function returns its result together with
  the events of its calls, in their order. A failure of a collaborator is \<open>Inl\<close>; the
  result \<open>Inr None\<close> is the promise resolved with \<^verbatim>\<open>undefined\<close>.
\<close>

record TileMatrix =
  zoom_level :: int
  matrix_width :: int
  matrix_height :: int
  tile_width :: real
  tile_height :: real

record 'd Tile =
  tileData :: 'd
  tileColumn :: int
  tileRow :: int

datatype failure = StorageFailure | UnsupportedProjection | NotIterable

datatype 'd event =
    Initialize real real
  | QueryByTileGrid TileGrid int
  | AddTile 'd int int
  | GetCompleteTile

record ('d, 'img) Collaborators =
  getTileMatrixWithZoomLevel :: "int option \<Rightarrow> TileMatrix option"
  totalBoundingBox :: BoundingBox
  projection :: string
  projectBoundingBox :: "BoundingBox \<Rightarrow> string \<Rightarrow> string \<Rightarrow> failure + BoundingBox"
  queryByTileGrid :: "TileGrid \<Rightarrow> int \<Rightarrow> failure + 'd Tile list"
  getCompleteTile :: "'d Tile list \<Rightarrow> 'img"

definition retrieveTileResults ::
  "('d, 'img) Collaborators \<Rightarrow> BoundingBox \<Rightarrow> TileMatrix option \<Rightarrow>
     (failure + 'd Tile list option) \<times> 'd event list" where
  "retrieveTileResults dao tileMatrixProjectionBoundingBox tileMatrix =
     (case tileMatrix of
        Some tm \<Rightarrow>
          (let tileGrid = getTileGridWithTotalBoundingBox (totalBoundingBox dao)
                            (matrix_width tm) (matrix_height tm) tileMatrixProjectionBoundingBox
           in (case queryByTileGrid dao tileGrid (zoom_level tm) of
                 Inl e \<Rightarrow> Inl e
               | Inr tiles \<Rightarrow> Inr (Some tiles),
               [QueryByTileGrid tileGrid (zoom_level tm)]))
      | None \<Rightarrow> (Inr None, []))"

definition getTileWithBounds ::
  "('d, 'img) Collaborators \<Rightarrow> real \<Rightarrow> real \<Rightarrow> BoundingBox \<Rightarrow> int option \<Rightarrow> string \<Rightarrow> bool \<Rightarrow>
     (failure + 'img option) \<times> 'd event list" where
  \<comment> \<open>\<open>width\<close> and \<open>height\<close> are the fields of the retriever, \<open>0\<close> when they are not
      set (\<^verbatim>\<open>this.width || tileWidth\<close>); \<open>canvas\<close> tells whether a canvas was passed.\<close>
  "getTileWithBounds dao width height targetBoundingBox zoom targetProjection canvas =
     (case getTileMatrixWithZoomLevel dao zoom of
        None \<Rightarrow> (Inr None, [])
      | Some tileMatrix \<Rightarrow>
          (let tileWidth = tile_width tileMatrix;
               tileHeight = tile_height tileMatrix;
               creator = Initialize (if width \<noteq> 0 then width else tileWidth)
                           (if height \<noteq> 0 then height else tileHeight)
           in case projectBoundingBox dao targetBoundingBox targetProjection (projection dao) of
                Inl e \<Rightarrow> (Inl e, [creator])
              | Inr box \<Rightarrow>
                  (case retrieveTileResults dao box (Some tileMatrix) of
                     (Inl e, queried) \<Rightarrow> (Inl e, creator # queried)
                   | (Inr None, queried) \<Rightarrow> (Inl NotIterable, creator # queried)
                   | (Inr (Some tiles), queried) \<Rightarrow>
                       (let drawn = map (\<lambda>tile. AddTile (tileData tile) (tileColumn tile)
                                                 (tileRow tile)) tiles
                        in if \<not> canvas
                           then (Inr (Some (getCompleteTile dao tiles)),
                                 creator # queried @ drawn @ [GetCompleteTile])
                           else (Inr None, creator # queried @ drawn)))))"

section \<open>Theorems\<close>

subsection \<open>Zoom-level remapping\<close>

lemma ceiling_minus_one: "\<lceil>v - 1\<rceil> = \<lceil>v :: real\<rceil> - 1"
  by linarith

lemma tileGridZoom_increase:
  assumes "fromZoom < toZoom"
  shows "tileGridZoom g fromZoom toZoom =
     \<lparr>min_x = min_x g * 2 ^ nat (toZoom - fromZoom),
      min_y = min_y g * 2 ^ nat (toZoom - fromZoom),
      max_x = (max_x g + 1) * 2 ^ nat (toZoom - fromZoom) - 1,
      max_y = (max_y g + 1) * 2 ^ nat (toZoom - fromZoom) - 1\<rparr>"
  using assms
  by (simp add: tileGridZoom_def tileGridZoomIncrease_def tileGridMinZoomIncrease_def
      tileGridMaxZoomIncrease_def Let_def)

lemma tileGridZoom_decrease:
  assumes "toZoom < fromZoom"
  shows "tileGridZoom g fromZoom toZoom =
     \<lparr>min_x = \<lfloor>of_int (min_x g) / (2 :: real) ^ nat (fromZoom - toZoom)\<rfloor>,
      min_y = \<lfloor>of_int (min_y g) / (2 :: real) ^ nat (fromZoom - toZoom)\<rfloor>,
      max_x = \<lceil>of_int (max_x g + 1) / (2 :: real) ^ nat (fromZoom - toZoom)\<rceil> - 1,
      max_y = \<lceil>of_int (max_y g + 1) / (2 :: real) ^ nat (fromZoom - toZoom)\<rceil> - 1\<rparr>"
proof -
  have "\<bar>toZoom - fromZoom\<bar> = fromZoom - toZoom"
    using assms by simp
  then show ?thesis
    using assms
    by (simp add: tileGridZoom_def tileGridZoomDecrease_def tileGridMinZoomDecrease_def
        tileGridMaxZoomDecrease_def Math_floor_def Math_ceil_def ceiling_minus_one Let_def)
qed

text \<open>
  C4. For every tile grid (in particular every grid with \<open>0 \<le> min \<le> max\<close> on each
  axis) and every zoom change: zooming in by \<open>\<Delta> = toZoom - fromZoom > 0\<close> levels gives
  \<open>newMin = min \<cdot> 2^\<Delta>\<close> and \<open>newMax = (max + 1) \<cdot> 2^\<Delta> - 1\<close> on each axis; zooming out
  (\<open>\<Delta> < 0\<close>) gives \<open>newMin = floor (min / 2^|\<Delta>|)\<close> and
  \<open>newMax = ceil ((max + 1) / 2^|\<Delta>|) - 1\<close>. Remapping \<open>TileGrid(1,1,1,1)\<close> from zoom 0 to
  zoom 2 gives \<open>TileGrid(4,4,7,7)\<close>, and remapping \<open>TileGrid(4,4,7,7)\<close> from zoom 2 to
  zoom 0 gives \<open>TileGrid(1,1,1,1)\<close>.
\<close>

theorem tileGridZoom_remap:
  "(fromZoom < toZoom \<longrightarrow>
      tileGridZoom g fromZoom toZoom =
        \<lparr>min_x = min_x g * 2 ^ nat (toZoom - fromZoom),
         min_y = min_y g * 2 ^ nat (toZoom - fromZoom),
         max_x = (max_x g + 1) * 2 ^ nat (toZoom - fromZoom) - 1,
         max_y = (max_y g + 1) * 2 ^ nat (toZoom - fromZoom) - 1\<rparr>) \<and>
   (toZoom < fromZoom \<longrightarrow>
      tileGridZoom g fromZoom toZoom =
        \<lparr>min_x = \<lfloor>of_int (min_x g) / (2 :: real) ^ nat \<bar>toZoom - fromZoom\<bar>\<rfloor>,
         min_y = \<lfloor>of_int (min_y g) / (2 :: real) ^ nat \<bar>toZoom - fromZoom\<bar>\<rfloor>,
         max_x = \<lceil>of_int (max_x g + 1) / (2 :: real) ^ nat \<bar>toZoom - fromZoom\<bar>\<rceil> - 1,
         max_y = \<lceil>of_int (max_y g + 1) / (2 :: real) ^ nat \<bar>toZoom - fromZoom\<bar>\<rceil> - 1\<rparr>) \<and>
   tileGridZoom \<lparr>min_x = 1, min_y = 1, max_x = 1, max_y = 1\<rparr> 0 2 =
     \<lparr>min_x = 4, min_y = 4, max_x = 7, max_y = 7\<rparr> \<and>
   tileGridZoom \<lparr>min_x = 4, min_y = 4, max_x = 7, max_y = 7\<rparr> 2 0 =
     \<lparr>min_x = 1, min_y = 1, max_x = 1, max_y = 1\<rparr>"
proof (intro conjI impI)
  assume "fromZoom < toZoom"
  then show "tileGridZoom g fromZoom toZoom =
        \<lparr>min_x = min_x g * 2 ^ nat (toZoom - fromZoom),
         min_y = min_y g * 2 ^ nat (toZoom - fromZoom),
         max_x = (max_x g + 1) * 2 ^ nat (toZoom - fromZoom) - 1,
         max_y = (max_y g + 1) * 2 ^ nat (toZoom - fromZoom) - 1\<rparr>"
    by (rule tileGridZoom_increase)
next
  assume lt: "toZoom < fromZoom"
  then have "\<bar>toZoom - fromZoom\<bar> = fromZoom - toZoom"
    by simp
  then show "tileGridZoom g fromZoom toZoom =
        \<lparr>min_x = \<lfloor>of_int (min_x g) / (2 :: real) ^ nat \<bar>toZoom - fromZoom\<bar>\<rfloor>,
         min_y = \<lfloor>of_int (min_y g) / (2 :: real) ^ nat \<bar>toZoom - fromZoom\<bar>\<rfloor>,
         max_x = \<lceil>of_int (max_x g + 1) / (2 :: real) ^ nat \<bar>toZoom - fromZoom\<bar>\<rceil> - 1,
         max_y = \<lceil>of_int (max_y g + 1) / (2 :: real) ^ nat \<bar>toZoom - fromZoom\<bar>\<rceil> - 1\<rparr>"
    using tileGridZoom_decrease [OF lt, of g] by simp
next
  show "tileGridZoom \<lparr>min_x = 1, min_y = 1, max_x = 1, max_y = 1\<rparr> 0 2 =
     \<lparr>min_x = 4, min_y = 4, max_x = 7, max_y = 7\<rparr>"
    using tileGridZoom_increase [of 0 2 "\<lparr>min_x = 1, min_y = 1, max_x = 1, max_y = 1\<rparr>"]
    by simp
next
  have two: "nat (2 :: int) = Suc (Suc 0)"
    by simp
  show "tileGridZoom \<lparr>min_x = 4, min_y = 4, max_x = 7, max_y = 7\<rparr> 2 0 =
     \<lparr>min_x = 1, min_y = 1, max_x = 1, max_y = 1\<rparr>"
    using tileGridZoom_decrease [of 0 2 "\<lparr>min_x = 4, min_y = 4, max_x = 7, max_y = 7\<rparr>"]
    by (simp add: two)
qed

theorem tileGridZoom_remap_witness:
  "(0 :: int) < 3 \<and> (0 :: int) \<le> 2 \<and> (2 :: int) \<le> 5 \<and>
   tileGridZoom \<lparr>min_x = 2, min_y = 2, max_x = 5, max_y = 5\<rparr> 0 3 =
     \<lparr>min_x = 16, min_y = 16, max_x = 47, max_y = 47\<rparr> \<and>
   (1 :: int) < 3 \<and>
   tileGridZoom \<lparr>min_x = 5, min_y = 6, max_x = 10, max_y = 12\<rparr> 3 1 =
     \<lparr>min_x = 1, min_y = 1, max_x = 2, max_y = 3\<rparr>"
proof -
  have three: "nat (3 :: int) = Suc (Suc (Suc 0))" and two: "nat (2 :: int) = Suc (Suc 0)"
    by simp_all
  have up: "tileGridZoom \<lparr>min_x = 2, min_y = 2, max_x = 5, max_y = 5\<rparr> 0 3 =
     \<lparr>min_x = 16, min_y = 16, max_x = 47, max_y = 47\<rparr>"
    using tileGridZoom_remap [of 0 3 "\<lparr>min_x = 2, min_y = 2, max_x = 5, max_y = 5\<rparr>"]
    by (simp add: three)
  have down: "tileGridZoom \<lparr>min_x = 5, min_y = 6, max_x = 10, max_y = 12\<rparr> 3 1 =
     \<lparr>min_x = 1, min_y = 1, max_x = 2, max_y = 3\<rparr>"
    using tileGridZoom_remap [of 3 1 "\<lparr>min_x = 5, min_y = 6, max_x = 10, max_y = 12\<rparr>"]
    by (simp add: two)
  show ?thesis
    using up down by simp
qed

subsection \<open>The 32-bit operators\<close>

lemma sint_word_of_int_small:
  "- (2 ^ 31) \<le> k \<Longrightarrow> k < 2 ^ 31 \<Longrightarrow> sint (word_of_int k :: 32 word) = k"
  by (simp add: sint_sbintrunc' signed_take_bit_int_eq_self)

lemma shiftLeftOne_small: "z \<le> 30 \<Longrightarrow> shiftLeftOne z = 2 ^ z"
proof -
  assume z: "z \<le> 30"
  have "(2 :: int) ^ z \<le> 2 ^ 30"
    using z by (intro power_increasing) simp_all
  then have hi: "(2 :: int) ^ z < 2 ^ 31"
    by simp
  have "- (2 ^ 31) \<le> (0 :: int)"
    by simp
  also have "(0 :: int) \<le> 2 ^ z"
    by simp
  finally have "sint (word_of_int (2 ^ z) :: 32 word) = 2 ^ z"
    using hi by (rule sint_word_of_int_small)
  then show ?thesis
    using z by (simp add: shiftLeftOne_def word_of_int_2p)
qed

lemma toInt32_floor: "0 \<le> v \<Longrightarrow> v < 2 ^ 31 \<Longrightarrow> toInt32 v = \<lfloor>v\<rfloor>"
proof -
  assume v: "0 \<le> v" "v < 2 ^ 31"
  have "0 \<le> \<lfloor>v\<rfloor>" using v by simp
  moreover have "\<lfloor>v\<rfloor> < 2 ^ 31" using v by (simp add: floor_less_iff)
  ultimately show ?thesis
    using v by (simp add: toInt32_def sint_word_of_int_small)
qed

subsection \<open>Tile column and tile row\<close>

lemma quotient_in_range:
  fixes a d :: real and n :: int
  assumes "0 \<le> a" "a \<le> d" "0 < d" "1 \<le> n"
  shows "0 \<le> a / (d / of_int n)" and "a / (d / of_int n) \<le> of_int n"
    and "a < d \<Longrightarrow> a / (d / of_int n) < of_int n"
proof -
  have n: "0 < (of_int n :: real)"
    using assms by simp
  then have tw: "0 < d / of_int n"
    using assms by simp
  show "0 \<le> a / (d / of_int n)"
    using assms(1) tw by (rule divide_nonneg_pos)
  have eq: "of_int n * (d / of_int n) = d"
    using n by simp
  show "a / (d / of_int n) \<le> of_int n"
    using assms(2) by (simp only: pos_divide_le_eq [OF tw] eq)
  show "a / (d / of_int n) < of_int n" if "a < d"
    using that by (simp only: pos_divide_less_eq [OF tw] eq)
qed

lemma int_bound_real: "(n :: int) < 2 ^ 31 \<Longrightarrow> (of_int n :: real) < 2 ^ 31"
proof -
  assume "n < 2 ^ 31"
  then have "(of_int n :: real) < of_int (2 ^ 31)"
    by (simp only: of_int_less_iff)
  then show ?thesis by simp
qed

lemma getTileColumnWithTotalBoundingBox_spec:
  assumes "1 \<le> matrixWidth" "matrixWidth < 2 ^ 31"
  shows "getTileColumnWithTotalBoundingBox totalBox matrixWidth longitude =
         tileColumn_spec totalBox matrixWidth longitude"
proof (cases "minLongitude totalBox \<le> longitude \<and> longitude < maxLongitude totalBox")
  case True
  let ?q = "(longitude - minLongitude totalBox) /
            ((maxLongitude totalBox - minLongitude totalBox) / of_int matrixWidth)"
  have "0 \<le> ?q" "?q \<le> of_int matrixWidth"
    using True assms(1) by (intro quotient_in_range; simp)+
  moreover note int_bound_real [OF assms(2)]
  ultimately have "toInt32 ?q = \<lfloor>?q\<rfloor>"
    by (intro toInt32_floor) simp_all
  then show ?thesis
    using True
    by (simp add: getTileColumnWithTotalBoundingBox_def tileColumn_spec_def Let_def)
next
  case False
  then show ?thesis
    by (auto simp add: getTileColumnWithTotalBoundingBox_def tileColumn_spec_def Let_def)
qed

lemma getRowWithTotalBoundingBox_spec:
  assumes "minLatitude totalBox < maxLatitude totalBox"
    and "1 \<le> matrixHeight" "matrixHeight < 2 ^ 31"
  shows "getRowWithTotalBoundingBox totalBox matrixHeight latitude =
         tileRow_spec totalBox matrixHeight latitude"
proof (cases "minLatitude totalBox \<le> latitude \<and> latitude < maxLatitude totalBox")
  case True
  let ?q = "(maxLatitude totalBox - latitude) /
            ((maxLatitude totalBox - minLatitude totalBox) / of_int matrixHeight)"
  have "0 \<le> ?q" "?q \<le> of_int matrixHeight"
    using True assms(1,2) by (intro quotient_in_range; simp)+
  moreover note int_bound_real [OF assms(3)]
  ultimately have "toInt32 ?q = \<lfloor>?q\<rfloor>"
    by (intro toInt32_floor) simp_all
  then show ?thesis
    using True
    by (simp add: getRowWithTotalBoundingBox_def tileRow_spec_def Let_def)
next
  case False
  then show ?thesis
    using assms(1)
    by (auto simp add: getRowWithTotalBoundingBox_def tileRow_spec_def Let_def)
qed

text \<open>
  C2 (amended). For every total bounding box with \<open>minX < maxX\<close> and \<open>minY < maxY\<close> and
  every matrix width and height \<open>\<ge> 1\<close>: \<^verbatim>\<open>getTileColumn\<close> returns \<open>-1\<close> when the
  longitude is below \<open>minX\<close> and \<open>matrixWidth\<close> when it is at or above \<open>maxX\<close>;
  \<^verbatim>\<open>getTileRow\<close> returns \<open>matrixHeight\<close> when the latitude is at or below \<open>minY\<close> and
  \<open>-1\<close> when it is above \<open>maxY\<close>, so that the latitude \<open>maxY\<close> itself is in range and
  lies in row \<open>0\<close>. The edge rule of the specification (\<open>latitude \<ge> maxY\<close> gives \<open>-1\<close>,
  \<open>latitude < minY\<close> gives \<open>matrixHeight\<close>) and its floor formula are what
  \<^verbatim>\<open>getTileColumnWithTotalBoundingBox\<close> and \<^verbatim>\<open>getRowWithTotalBoundingBox\<close> compute, for
  matrix sizes below \<open>2^31\<close>.
\<close>

theorem tile_column_row_addressing:
  assumes "minLongitude totalBox < maxLongitude totalBox"
    and "minLatitude totalBox < maxLatitude totalBox"
    and "1 \<le> matrixWidth" and "1 \<le> matrixHeight"
  shows "(longitude < minLongitude totalBox \<longrightarrow>
            getTileColumn totalBox matrixWidth longitude = - 1) \<and>
         (longitude \<ge> maxLongitude totalBox \<longrightarrow>
            getTileColumn totalBox matrixWidth longitude = matrixWidth) \<and>
         (latitude \<le> minLatitude totalBox \<longrightarrow>
            getTileRow totalBox matrixHeight latitude = matrixHeight) \<and>
         (latitude > maxLatitude totalBox \<longrightarrow>
            getTileRow totalBox matrixHeight latitude = - 1) \<and>
         getTileRow totalBox matrixHeight (maxLatitude totalBox) = 0 \<and>
         (matrixWidth < 2 ^ 31 \<longrightarrow>
            getTileColumnWithTotalBoundingBox totalBox matrixWidth longitude =
            tileColumn_spec totalBox matrixWidth longitude) \<and>
         (matrixHeight < 2 ^ 31 \<longrightarrow>
            getRowWithTotalBoundingBox totalBox matrixHeight latitude =
            tileRow_spec totalBox matrixHeight latitude)"
proof (intro conjI impI)
  show "getTileColumn totalBox matrixWidth longitude = - 1"
    if "longitude < minLongitude totalBox"
    using that by (simp add: getTileColumn_def Let_def)
  show "getTileColumn totalBox matrixWidth longitude = matrixWidth"
    if "longitude \<ge> maxLongitude totalBox"
    using that assms(1) by (simp add: getTileColumn_def Let_def)
  show "getTileRow totalBox matrixHeight latitude = matrixHeight"
    if "latitude \<le> minLatitude totalBox"
    using that by (simp add: getTileRow_def Let_def)
  show "getTileRow totalBox matrixHeight latitude = - 1"
    if "latitude > maxLatitude totalBox"
    using that assms(2) by (simp add: getTileRow_def Let_def)
  show "getTileRow totalBox matrixHeight (maxLatitude totalBox) = 0"
    using assms(2) by (simp add: getTileRow_def Let_def Math_round_def)
  show "getTileColumnWithTotalBoundingBox totalBox matrixWidth longitude =
        tileColumn_spec totalBox matrixWidth longitude"
    if "matrixWidth < 2 ^ 31"
    using assms(3) that by (rule getTileColumnWithTotalBoundingBox_spec)
  show "getRowWithTotalBoundingBox totalBox matrixHeight latitude =
        tileRow_spec totalBox matrixHeight latitude"
    if "matrixHeight < 2 ^ 31"
    using assms(2,4) that by (rule getRowWithTotalBoundingBox_spec)
qed

theorem tile_column_row_addressing_witness:
  "getTileColumn \<lparr>minLongitude = 0, minLatitude = 0, maxLongitude = 2, maxLatitude = 2\<rparr> 2 (- 1) = - 1 \<and>
   getTileColumn \<lparr>minLongitude = 0, minLatitude = 0, maxLongitude = 2, maxLatitude = 2\<rparr> 2 2 = 2 \<and>
   getTileRow \<lparr>minLongitude = 0, minLatitude = 0, maxLongitude = 2, maxLatitude = 2\<rparr> 2 0 = 2 \<and>
   getTileRow \<lparr>minLongitude = 0, minLatitude = 0, maxLongitude = 2, maxLatitude = 2\<rparr> 2 3 = - 1 \<and>
   getTileRow \<lparr>minLongitude = 0, minLatitude = 0, maxLongitude = 2, maxLatitude = 2\<rparr> 2 2 = 0 \<and>
   getTileColumnWithTotalBoundingBox
     \<lparr>minLongitude = 0, minLatitude = 0, maxLongitude = 2, maxLatitude = 2\<rparr> 2 (3 / 2) = 1 \<and>
   getRowWithTotalBoundingBox
     \<lparr>minLongitude = 0, minLatitude = 0, maxLongitude = 2, maxLatitude = 2\<rparr> 2 (3 / 2) = 0"
proof -
  let ?b = "\<lparr>minLongitude = 0, minLatitude = 0, maxLongitude = 2, maxLatitude = 2\<rparr>"
  have h: "minLongitude ?b < maxLongitude ?b" "minLatitude ?b < maxLatitude ?b"
    "(1 :: int) \<le> 2" "(1 :: int) \<le> 2"
    by simp_all
  have f1: "\<lfloor>(3 :: real) / 2\<rfloor> = 1" "\<lfloor>(1 :: real) / 2\<rfloor> = 0"
    by linarith+
  show ?thesis
    using tile_column_row_addressing [OF h, of "- 1" 0]
      tile_column_row_addressing [OF h, of 2 3]
      tile_column_row_addressing [OF h, of "3 / 2" "3 / 2"]
    by (simp add: tileColumn_spec_def tileRow_spec_def f1)
qed

text \<open>
  The claim C2 as it is worded fails on \<^verbatim>\<open>getTileRow\<close>: in the box \<open>[0,2] \<times> [0,2]\<close> with
  two rows the latitude \<open>2 = maxY\<close> is in row \<open>0\<close>, where the wording gives \<open>-1\<close>.
\<close>

theorem tile_column_row_addressing_counterexample:
  "maxLatitude \<lparr>minLongitude = 0, minLatitude = 0, maxLongitude = 2, maxLatitude = 2\<rparr> \<le> 2 \<and>
   tileRow_spec \<lparr>minLongitude = 0, minLatitude = 0, maxLongitude = 2, maxLatitude = 2\<rparr> 2 2 = - 1 \<and>
   getTileRow \<lparr>minLongitude = 0, minLatitude = 0, maxLongitude = 2, maxLatitude = 2\<rparr> 2 2 = 0"
  by (simp add: getTileRow_def tileRow_spec_def Math_round_def)

text \<open>
  \<^verbatim>\<open>getTileColumn\<close> rounds to the nearest column instead of taking the floor: the
  longitude \<open>1/2\<close> of the first of two columns over \<open>[0,2]\<close> is put in column \<open>1\<close>, and
  the in-range longitude \<open>3/2\<close> in column \<open>2 = matrixWidth\<close>.
\<close>

lemma getTileColumn_rounds_up:
  "tileColumn_spec \<lparr>minLongitude = 0, minLatitude = 0, maxLongitude = 2, maxLatitude = 2\<rparr> 2 (1 / 2) = 0"
  "getTileColumn \<lparr>minLongitude = 0, minLatitude = 0, maxLongitude = 2, maxLatitude = 2\<rparr> 2 (1 / 2) = 1"
  "getTileColumn \<lparr>minLongitude = 0, minLatitude = 0, maxLongitude = 2, maxLatitude = 2\<rparr> 2 (3 / 2) = 2"
  by (simp_all add: getTileColumn_def tileColumn_spec_def Math_round_def)

subsection \<open>The loops that wrap the tile column\<close>

lemma correctX_up_nonneg: "0 \<le> x \<Longrightarrow> correctX_up n x = Some x"
  by (subst correctX_up.simps) simp

lemma correctX_up_neg:
  assumes "0 < n"
  shows "x < 0 \<Longrightarrow> correctX_up n x = Some (x mod n)"
proof (induction "nat (- x)" arbitrary: x rule: less_induct)
  case less
  show ?case
  proof (cases "x + n < 0")
    case True
    then have "nat (- (x + n)) < nat (- x)"
      using assms by simp
    then have "correctX_up n (x + n) = Some ((x + n) mod n)"
      using True by (rule less.hyps)
    then show ?thesis
      using less.prems by (subst correctX_up.simps) simp
  next
    case False
    then have "0 \<le> x + n" "x + n < n"
      using less.prems by simp_all
    then have "(x + n) mod n = x + n"
      by (rule mod_pos_pos_trivial)
    moreover have "(x + n) mod n = x mod n"
      by simp
    ultimately have "x mod n = x + n"
      by (simp only:)
    moreover have "correctX_up n (x + n) = Some (x + n)"
      using False by (intro correctX_up_nonneg) simp
    ultimately show ?thesis
      using less.prems by (subst correctX_up.simps) simp
  qed
qed

lemma correctX_down_nonneg:
  assumes "0 < n"
  shows "0 \<le> x \<Longrightarrow> correctX_down n x = Some (x mod n)"
proof (induction "nat x" arbitrary: x rule: less_induct)
  case less
  show ?case
  proof (cases "n \<le> x")
    case True
    then have "nat (x - n) < nat x"
      using assms by simp
    moreover have "0 \<le> x - n"
      using True by simp
    ultimately have "correctX_down n (x - n) = Some ((x - n) mod n)"
      by (rule less.hyps)
    then show ?thesis
      using True by (subst correctX_down.simps) simp
  next
    case False
    then have "x mod n = x"
      using less.prems by simp
    then show ?thesis
      using False by (subst correctX_down.simps) simp
  qed
qed

lemma correctX_positive:
  assumes "0 < n"
  shows "Option.bind (correctX_up n x) (correctX_down n) = Some (x mod n)"
proof (cases "x < 0")
  case True
  then have "correctX_up n x = Some (x mod n)"
    using assms by (intro correctX_up_neg)
  moreover have "correctX_down n (x mod n) = Some ((x mod n) mod n)"
    using assms by (intro correctX_down_nonneg) simp_all
  ultimately show ?thesis
    by simp
next
  case False
  then show ?thesis
    using assms by (simp add: correctX_up_nonneg correctX_down_nonneg)
qed

lemma correctX_up_Some_D:
  assumes "correctX_up n x = Some r" and "n < 0"
  shows "0 \<le> x"
proof -
  have "(case (n, x) of (a, b) \<Rightarrow> \<lambda>r. a < 0 \<longrightarrow> 0 \<le> b) r"
  proof (rule correctX_up.raw_induct [where P = "\<lambda>a b r. a < 0 \<longrightarrow> 0 \<le> b"])
    show "(case (n, x) of (a, b) \<Rightarrow> correctX_up a b) = Some r"
      using assms(1) by simp
  next
    fix f :: "int \<Rightarrow> int \<Rightarrow> int option" and a b c
    assume IH: "\<And>x b y. f x b = Some y \<Longrightarrow> x < 0 \<longrightarrow> 0 \<le> b"
      and eq: "(if b < 0 then f a (b + a) else Some b) = Some c"
    show "a < 0 \<longrightarrow> 0 \<le> b"
    proof (cases "b < 0")
      case True
      then have "f a (b + a) = Some c"
        using eq by simp
      then have "a < 0 \<longrightarrow> 0 \<le> b + a"
        by (rule IH)
      then show ?thesis
        using True by auto
    next
      case False
      then show ?thesis by simp
    qed
  qed
  then show ?thesis
    using assms(2) by simp
qed

lemma correctX_down_Some_D:
  assumes "correctX_down n x = Some r" and "n < 0"
  shows "x < 0"
proof -
  have "(case (n, x) of (a, b) \<Rightarrow> \<lambda>r. a < 0 \<longrightarrow> b < 0) r"
  proof (rule correctX_down.raw_induct [where P = "\<lambda>a b r. a < 0 \<longrightarrow> b < 0"])
    show "(case (n, x) of (a, b) \<Rightarrow> correctX_down a b) = Some r"
      using assms(1) by simp
  next
    fix f :: "int \<Rightarrow> int \<Rightarrow> int option" and a b c
    assume IH: "\<And>x b y. f x b = Some y \<Longrightarrow> x < 0 \<longrightarrow> b < 0"
      and eq: "(if a \<le> b then f a (b - a) else Some b) = Some c"
    show "a < 0 \<longrightarrow> b < 0"
    proof (cases "a \<le> b")
      case True
      then have "f a (b - a) = Some c"
        using eq by simp
      then have "a < 0 \<longrightarrow> b - a < 0"
        by (rule IH)
      then show ?thesis
        using True by auto
    next
      case False
      then show ?thesis by simp
    qed
  qed
  then show ?thesis
    using assms(2) by simp
qed

lemma correctX_negative:
  assumes "n < 0"
  shows "Option.bind (correctX_up n x) (correctX_down n) = None"
proof (cases "correctX_up n x")
  case None
  then show ?thesis by simp
next
  case (Some x1)
  then have x: "0 \<le> x"
    using assms by (rule correctX_up_Some_D)
  then have "x1 = x"
    using Some by (simp add: correctX_up_nonneg)
  moreover have "correctX_down n x = None"
  proof (cases "correctX_down n x")
    case None
    then show ?thesis .
  next
    case (Some r)
    then have "x < 0"
      using assms by (rule correctX_down_Some_D)
    then show ?thesis
      using x by simp
  qed
  ultimately show ?thesis
    using Some by simp
qed

subsection \<open>Round trip between a tile and its bounding box\<close>

lemma getWebMercatorBoundingBoxFromXYZ_positive:
  assumes "0 < tilesPerSideWithZoom zoom"
  shows "getWebMercatorBoundingBoxFromXYZ H x y zoom options =
     (let n = tilesPerSideWithZoom zoom;
          s = tileSizeWithTilesPerSide H n;
          x2 = x mod n;
          meterBuffer = meterBuffer_of s options
      in Some \<lparr>minLongitude = max (- 1 * H) (- 1 * H + of_int x2 * s - meterBuffer),
               minLatitude = max (- 1 * H) (H - of_int (y + 1) * s - meterBuffer),
               maxLongitude = min H (- 1 * H + of_int (x2 + 1) * s + meterBuffer),
               maxLatitude = min H (H - of_int y * s + meterBuffer)\<rparr>)"
proof -
  let ?n = "tilesPerSideWithZoom zoom"
  have "Option.bind (correctX_up ?n x) (correctX_down ?n) = Some (x mod ?n)"
    using assms by (rule correctX_positive)
  then obtain x1 where "correctX_up ?n x = Some x1" "correctX_down ?n x1 = Some (x mod ?n)"
    by (cases "correctX_up ?n x") simp_all
  then show ?thesis
    by (simp add: getWebMercatorBoundingBoxFromXYZ_def Let_def)
qed

lemma getWebMercatorBoundingBoxFromXYZ_negative:
  assumes "tilesPerSideWithZoom zoom < 0"
  shows "getWebMercatorBoundingBoxFromXYZ H x y zoom options = None"
proof -
  let ?n = "tilesPerSideWithZoom zoom"
  have "Option.bind (correctX_up ?n x) (correctX_down ?n) = None"
    using assms by (rule correctX_negative)
  then show ?thesis
    by (cases "correctX_up ?n x") (simp_all add: getWebMercatorBoundingBoxFromXYZ_def Let_def)
qed

lemma shiftLeftOne_pos: "z mod 32 \<noteq> 31 \<Longrightarrow> shiftLeftOne z = 2 ^ (z mod 32)"
proof -
  assume "z mod 32 \<noteq> 31"
  moreover have "z mod 32 < 32"
    by simp
  ultimately have "z mod 32 \<le> 30"
    by linarith
  then have "shiftLeftOne (z mod 32) = 2 ^ (z mod 32)"
    by (rule shiftLeftOne_small)
  then show ?thesis
    by (simp add: shiftLeftOne_def)
qed

lemma shiftLeftOne_31: "z mod 32 = 31 \<Longrightarrow> shiftLeftOne z = - (2 ^ 31)"
  by (simp add: shiftLeftOne_def)

lemma Math_round_of_int: "Math_round (of_int k) = k"
  unfolding Math_round_def by linarith

lemma tilesPerSide_rounded_eq: "tilesPerSide_rounded zoom = 2 ^ zoom"
proof -
  have "Math_round (of_int (2 ^ zoom)) = 2 ^ zoom"
    by (rule Math_round_of_int)
  then show ?thesis
    by (simp add: tilesPerSide_rounded_def)
qed

text \<open>
  C10 (amended). For every zoom \<open>z \<ge> 0\<close> whose remainder modulo 32 is not 31 (in
  particular \<open>0 \<le> z \<le> 30\<close>), every integer tile column \<open>x\<close> (negative or beyond
  \<open>2^z\<close> as well), every row and all options: \<^verbatim>\<open>getWebMercatorBoundingBoxFromXYZ(x, y, z)\<close>
  returns, and returns the same bounding box as for the column \<open>x mod 2^z\<close>.
\<close>

theorem getWebMercatorBoundingBoxFromXYZ_wraps:
  assumes "zoom mod 32 \<noteq> 31"
  shows "\<exists>box. getWebMercatorBoundingBoxFromXYZ H x y zoom options = Some box \<and>
           getWebMercatorBoundingBoxFromXYZ H (x mod 2 ^ zoom) y zoom options = Some box"
proof -
  have n: "tilesPerSideWithZoom zoom = 2 ^ (zoom mod 32)"
    using assms by (simp add: tilesPerSideWithZoom_def shiftLeftOne_pos)
  then have pos: "0 < tilesPerSideWithZoom zoom"
    by simp
  have "zoom mod 32 \<le> zoom"
    by simp
  then have "(2 :: int) ^ (zoom mod 32) dvd 2 ^ zoom"
    by (rule le_imp_power_dvd)
  then have "x mod 2 ^ zoom mod 2 ^ (zoom mod 32) = x mod 2 ^ (zoom mod 32)"
    by (rule mod_mod_cancel)
  then show ?thesis
    by (simp add: getWebMercatorBoundingBoxFromXYZ_positive [OF pos] n Let_def)
qed

theorem getWebMercatorBoundingBoxFromXYZ_wraps_witness:
  "(2 :: nat) mod 32 \<noteq> 31 \<and>
   (\<exists>box. getWebMercatorBoundingBoxFromXYZ 20037508.342789244 (- 3) 1 2 None = Some box \<and>
      getWebMercatorBoundingBoxFromXYZ 20037508.342789244 ((- 3) mod 2 ^ 2) 1 2 None = Some box)"
  using getWebMercatorBoundingBoxFromXYZ_wraps [of 2 "20037508.342789244" "- 3" 1 None] by simp

text \<open>
  The claim C10 as it is worded (every zoom \<open>z \<ge> 0\<close>) fails at zoom 31: \<^verbatim>\<open>1 << 31\<close> is
  \<open>-2^31\<close>, the second loop subtracts a negative number for ever and no box is returned.
\<close>

theorem getWebMercatorBoundingBoxFromXYZ_wraps_counterexample:
  "tilesPerSideWithZoom 31 = - 2147483648 \<and>
   getWebMercatorBoundingBoxFromXYZ 20037508.342789244 0 0 31 None = None"
proof -
  have tps: "tilesPerSideWithZoom 31 = - 2147483648"
    by (simp add: tilesPerSideWithZoom_def shiftLeftOne_def)
  then have "tilesPerSideWithZoom 31 < 0"
    by simp
  then have "getWebMercatorBoundingBoxFromXYZ 20037508.342789244 0 0 31 None = None"
    by (rule getWebMercatorBoundingBoxFromXYZ_negative)
  then show ?thesis
    using tps by simp
qed

lemma tilesPerSide_powers:
  "tilesPerSide zoom = 2 ^ zoom" "tilesPerSide_rounded zoom = 2 ^ zoom"
  "zoom \<le> 30 \<Longrightarrow> tilesPerSideWithZoom zoom = 2 ^ zoom"
  by (simp_all add: tilesPerSide_def tilesPerSide_rounded_eq tilesPerSideWithZoom_def
      shiftLeftOne_small)

text \<open>
  C3. The round trip of the claim fails in the code. \<^verbatim>\<open>getWebMercatorBoundingBoxFromXYZ\<close>
  gives the tile \<open>(0, 0)\<close> of zoom 1 the box \<open>(-H, 0, 0, H)\<close>, and
  \<^verbatim>\<open>getTileGridFromBoundingBox\<close> gives that box at zoom 1 the grid of all four tiles,
  \<open>minX = minY = 0\<close> and \<open>maxX = maxY = 1\<close>, where the claim has the single tile
  \<open>minX = maxX = 0\<close>, \<open>minY = maxY = 0\<close>: the upper index is \<^verbatim>\<open>Math.round\<close> of
  \<open>1 - precision\<close>, which is \<open>1\<close>, where a truncation gives \<open>0\<close>. This holds for every
  positive half world width \<open>H\<close> and every \<open>precision\<close> in \<open>[0, 1/2)\<close>, and it does not
  depend on the rounding of doubles: \<open>-H + H = 0\<close> and \<open>H / H = 1\<close> are exact.
\<close>

theorem getTileGridFromBoundingBox_first_tile:
  assumes "0 < H" and "0 \<le> precision" and "precision < 1 / 2"
  shows "getWebMercatorBoundingBoxFromXYZ H 0 0 1 None =
           Some \<lparr>minLongitude = - H, minLatitude = 0, maxLongitude = 0, maxLatitude = H\<rparr> \<and>
         getTileGridFromBoundingBox H precision
           \<lparr>minLongitude = - H, minLatitude = 0, maxLongitude = 0, maxLatitude = H\<rparr> 1 =
           \<lparr>min_x = 0, min_y = 0, max_x = 1, max_y = 1\<rparr>"
proof -
  have tps: "tilesPerSideWithZoom (Suc 0) = 2"
    by (simp add: tilesPerSideWithZoom_def shiftLeftOne_def)
  have box: "getWebMercatorBoundingBoxFromXYZ H 0 0 1 None =
      Some \<lparr>minLongitude = - H, minLatitude = 0, maxLongitude = 0, maxLatitude = H\<rparr>"
    using assms(1)
    by (simp add: getWebMercatorBoundingBoxFromXYZ_positive tps Let_def
        tileSizeWithTilesPerSide_def meterBuffer_of_def)
  have r: "Math_round (1 - precision) = 1"
    unfolding Math_round_def using assms(2,3) by linarith
  have t: "tilesPerSide_rounded (Suc 0) = 2"
    by (simp add: tilesPerSide_rounded_eq)
  have z: "Math_round 0 = 0"
    unfolding Math_round_def by simp
  have "getTileGridFromBoundingBox H precision
      \<lparr>minLongitude = - H, minLatitude = 0, maxLongitude = 0, maxLatitude = H\<rparr> 1 =
      \<lparr>min_x = 0, min_y = 0, max_x = 1, max_y = 1\<rparr>"
    using assms(1) by (simp add: getTileGridFromBoundingBox_def Let_def t tileSize_def r z)
  then show ?thesis
    using box by simp
qed

theorem getTileGridFromBoundingBox_first_tile_witness:
  "getWebMercatorBoundingBoxFromXYZ 20037508.342789244 0 0 1 None =
     Some \<lparr>minLongitude = - 20037508.342789244, minLatitude = 0, maxLongitude = 0,
           maxLatitude = 20037508.342789244\<rparr> \<and>
   getTileGridFromBoundingBox 20037508.342789244 0.0000000001
     \<lparr>minLongitude = - 20037508.342789244, minLatitude = 0, maxLongitude = 0,
      maxLatitude = 20037508.342789244\<rparr> 1 =
     \<lparr>min_x = 0, min_y = 0, max_x = 1, max_y = 1\<rparr>"
proof -
  have h: "(0 :: real) < 20037508.342789244" "(0 :: real) \<le> 0.0000000001"
    "(0.0000000001 :: real) < 1 / 2"
    by simp_all
  show ?thesis
    using getTileGridFromBoundingBox_first_tile [OF h] by simp
qed

subsection \<open>Selection of the zoom level\<close>

lemma determineZoom_loop_append:
  "determineZoom_loop w mz (xs @ ys) i g =
   determineZoom_loop w mz ys (i + length xs) (determineZoom_loop w mz xs i g)"
  by (induction xs arbitrary: i g) simp_all

lemma determineZoom_loop_snoc:
  "determineZoom_loop w mz (xs @ [t]) i g =
   (if zoomMatches w t then Some (mz - int (i + length xs)) else determineZoom_loop w mz xs i g)"
  by (simp add: determineZoom_loop_append)

lemma determineZoom_loop_Some_iff:
  "determineZoom_loop w mz ws 0 None = Some z \<longleftrightarrow>
   (\<exists>i<length ws. zoomMatches w (ws ! i) \<and>
      (\<forall>j<length ws. i < j \<longrightarrow> \<not> zoomMatches w (ws ! j)) \<and> z = mz - int i)"
proof (induction ws arbitrary: z rule: rev_induct)
  case Nil
  then show ?case by simp
next
  case (snoc t ws)
  show ?case
  proof (cases "zoomMatches w t")
    case True
    have "(\<exists>i<length (ws @ [t]). zoomMatches w ((ws @ [t]) ! i) \<and>
            (\<forall>j<length (ws @ [t]). i < j \<longrightarrow> \<not> zoomMatches w ((ws @ [t]) ! j)) \<and>
            z = mz - int i) \<longleftrightarrow> z = mz - int (length ws)"
    proof
      assume "\<exists>i<length (ws @ [t]). zoomMatches w ((ws @ [t]) ! i) \<and>
            (\<forall>j<length (ws @ [t]). i < j \<longrightarrow> \<not> zoomMatches w ((ws @ [t]) ! j)) \<and>
            z = mz - int i"
      then obtain i where i: "i < length (ws @ [t])"
        "\<forall>j<length (ws @ [t]). i < j \<longrightarrow> \<not> zoomMatches w ((ws @ [t]) ! j)" "z = mz - int i"
        by blast
      have "\<not> i < length ws"
      proof
        assume "i < length ws"
        then have "\<not> zoomMatches w ((ws @ [t]) ! length ws)"
          using i(2) [rule_format, of "length ws"] by simp
        then show False
          using True by simp
      qed
      then have "i = length ws"
        using i(1) by simp
      then show "z = mz - int (length ws)"
        using i(3) by simp
    next
      assume "z = mz - int (length ws)"
      then show "\<exists>i<length (ws @ [t]). zoomMatches w ((ws @ [t]) ! i) \<and>
            (\<forall>j<length (ws @ [t]). i < j \<longrightarrow> \<not> zoomMatches w ((ws @ [t]) ! j)) \<and>
            z = mz - int i"
        using True by (intro exI [of _ "length ws"]) simp
    qed
    then show ?thesis
      using True by (auto simp only: determineZoom_loop_snoc if_True add_0 option.inject)
  next
    case False
    have "(\<exists>i<length (ws @ [t]). zoomMatches w ((ws @ [t]) ! i) \<and>
            (\<forall>j<length (ws @ [t]). i < j \<longrightarrow> \<not> zoomMatches w ((ws @ [t]) ! j)) \<and>
            z = mz - int i) \<longleftrightarrow>
          (\<exists>i<length ws. zoomMatches w (ws ! i) \<and>
            (\<forall>j<length ws. i < j \<longrightarrow> \<not> zoomMatches w (ws ! j)) \<and> z = mz - int i)"
      (is "?L \<longleftrightarrow> ?R")
    proof
      assume ?L
      then obtain i where i: "i < length (ws @ [t])" "zoomMatches w ((ws @ [t]) ! i)"
        "\<forall>j<length (ws @ [t]). i < j \<longrightarrow> \<not> zoomMatches w ((ws @ [t]) ! j)" "z = mz - int i"
        by blast
      have il: "i < length ws"
      proof (rule ccontr)
        assume "\<not> i < length ws"
        then have "i = length ws"
          using i(1) by simp
        then show False
          using i(2) False by simp
      qed
      have "\<forall>j<length ws. i < j \<longrightarrow> \<not> zoomMatches w (ws ! j)"
      proof (intro allI impI)
        fix j assume j: "j < length ws" "i < j"
        then have "\<not> zoomMatches w ((ws @ [t]) ! j)"
          using i(3) by simp
        then show "\<not> zoomMatches w (ws ! j)"
          using j(1) by (simp add: nth_append)
      qed
      moreover have "zoomMatches w (ws ! i)"
        using i(2) il by (simp add: nth_append)
      ultimately show ?R
        using il i(4) by blast
    next
      assume ?R
      then obtain i where i: "i < length ws" "zoomMatches w (ws ! i)"
        "\<forall>j<length ws. i < j \<longrightarrow> \<not> zoomMatches w (ws ! j)" "z = mz - int i"
        by blast
      have "\<forall>j<length (ws @ [t]). i < j \<longrightarrow> \<not> zoomMatches w ((ws @ [t]) ! j)"
      proof (intro allI impI)
        fix j assume j: "j < length (ws @ [t])" "i < j"
        show "\<not> zoomMatches w ((ws @ [t]) ! j)"
        proof (cases "j < length ws")
          case True
          then show ?thesis
            using i(3) j(2) by (simp add: nth_append)
        next
          case notlt: False
          then have "j = length ws"
            using j(1) by simp
          then show ?thesis
            using False by simp
        qed
      qed
      moreover have "zoomMatches w ((ws @ [t]) ! i)"
        using i(1,2) by (simp add: nth_append)
      moreover have "i < length (ws @ [t])"
        using i(1) by simp
      ultimately show ?L
        using i(4) by blast
    qed
    then show ?thesis
      using False snoc.IH [of z] by (simp only: determineZoom_loop_snoc if_False)
  qed
qed

lemma determineZoom_loop_None_iff:
  "determineZoom_loop w mz ws 0 None = None \<longleftrightarrow> (\<forall>i<length ws. \<not> zoomMatches w (ws ! i))"
proof (induction ws rule: rev_induct)
  case Nil
  then show ?case by simp
next
  case (snoc t ws)
  show ?case
  proof (cases "zoomMatches w t")
    case True
    then have "\<not> (\<forall>i<length (ws @ [t]). \<not> zoomMatches w ((ws @ [t]) ! i))"
      by (auto intro: exI [of _ "length ws"])
    then show ?thesis
      using True by (simp add: determineZoom_loop_snoc)
  next
    case False
    have "(\<forall>i<length (ws @ [t]). \<not> zoomMatches w ((ws @ [t]) ! i)) \<longleftrightarrow>
          (\<forall>i<length ws. \<not> zoomMatches w (ws ! i))"
      using False by (auto simp add: nth_append less_Suc_eq)
    then show ?thesis
      using False snoc.IH by (simp add: determineZoom_loop_snoc)
  qed
qed

text \<open>
  C1 (amended). Let \<open>w\<close> be the requested tile width that \<^verbatim>\<open>determineGeoPackageZoomLevel\<close>
  compares with the stored widths. The function returns \<open>maxZoom - i\<close> for the last index
  \<open>i\<close> whose stored tile width is less than or equal to \<open>w\<close>, or differs from \<open>w\<close> by at
  most 0.1% of that stored tile width; it returns \<^verbatim>\<open>undefined\<close> exactly when no stored
  width passes this test; among the zoom levels whose width passes, the one returned is
  the smallest.
\<close>

theorem determineGeoPackageZoomLevel_last_match:
  assumes "w = fst (inverse_proj (maxLongitude box, maxLatitude box)) -
               fst (inverse_proj (minLongitude box, minLatitude box))"
  shows "(determineGeoPackageZoomLevel inverse_proj widths maxZoom box = Some z \<longleftrightarrow>
            (\<exists>i<length widths. zoomMatches w (widths ! i) \<and>
               (\<forall>j<length widths. i < j \<longrightarrow> \<not> zoomMatches w (widths ! j)) \<and>
               z = maxZoom - int i)) \<and>
         (determineGeoPackageZoomLevel inverse_proj widths maxZoom box = None \<longleftrightarrow>
            (\<forall>i<length widths. \<not> zoomMatches w (widths ! i))) \<and>
         (determineGeoPackageZoomLevel inverse_proj widths maxZoom box = Some z \<longrightarrow>
            (\<forall>j<length widths. zoomMatches w (widths ! j) \<longrightarrow> z \<le> maxZoom - int j)) \<and>
         (zoomMatches w t \<longleftrightarrow> t \<le> w \<or> \<bar>w - t\<bar> \<le> 0.001 * t)"
proof -
  have d: "determineGeoPackageZoomLevel inverse_proj widths maxZoom box =
           determineZoom_loop w maxZoom widths 0 None"
    using assms by (simp add: determineGeoPackageZoomLevel_def Let_def)
  have least: "\<forall>j<length widths. zoomMatches w (widths ! j) \<longrightarrow> z \<le> maxZoom - int j"
    if "determineZoom_loop w maxZoom widths 0 None = Some z"
  proof (intro allI impI)
    fix j assume j: "j < length widths" "zoomMatches w (widths ! j)"
    have "\<exists>i<length widths. zoomMatches w (widths ! i) \<and>
        (\<forall>j<length widths. i < j \<longrightarrow> \<not> zoomMatches w (widths ! j)) \<and> z = maxZoom - int i"
      using that by (simp only: determineZoom_loop_Some_iff)
    then obtain i where i: "i < length widths"
      "\<forall>j<length widths. i < j \<longrightarrow> \<not> zoomMatches w (widths ! j)" "z = maxZoom - int i"
      by blast
    have "\<not> i < j"
      using i(2) j by blast
    then show "z \<le> maxZoom - int j"
      using i(3) by simp
  qed
  show ?thesis
    unfolding d
    using determineZoom_loop_Some_iff [of w maxZoom widths z]
      determineZoom_loop_None_iff [of w maxZoom widths] least
    by (simp add: zoomMatches_def Let_def)
qed

theorem determineGeoPackageZoomLevel_last_match_witness:
  "determineGeoPackageZoomLevel (\<lambda>p. p) [1, 2, 4] 2
     \<lparr>minLongitude = 0, minLatitude = 0, maxLongitude = 3, maxLatitude = 3\<rparr> = Some 1 \<and>
   zoomMatches 3 ([1, 2, 4] ! 0) \<and> zoomMatches 3 ([1, 2, 4] ! 1) \<and> \<not> zoomMatches 3 ([1, 2, 4] ! 2)"
proof -
  let ?box = "\<lparr>minLongitude = 0, minLatitude = 0, maxLongitude = 3, maxLatitude = 3\<rparr>"
  let ?ws = "[1, 2, 4] :: real list"
  have w: "(3 :: real) = fst ((\<lambda>p. p) (maxLongitude ?box, maxLatitude ?box)) -
                         fst ((\<lambda>p. p) (minLongitude ?box, minLatitude ?box))"
    by simp
  have m: "zoomMatches 3 (?ws ! 0)" "zoomMatches 3 (?ws ! 1)" "\<not> zoomMatches 3 (?ws ! 2)"
    by (simp_all add: zoomMatches_def)
  have "\<forall>j<length ?ws. 1 < j \<longrightarrow> \<not> zoomMatches 3 (?ws ! j)"
  proof (intro allI impI)
    fix j assume "j < length ?ws" "1 < j"
    then have "j = 2" by simp
    then show "\<not> zoomMatches 3 (?ws ! j)"
      using m(3) by simp
  qed
  then have "\<exists>i<length ?ws. zoomMatches 3 (?ws ! i) \<and>
      (\<forall>j<length ?ws. i < j \<longrightarrow> \<not> zoomMatches 3 (?ws ! j)) \<and> (1 :: int) = 2 - int i"
    using m(2) by (intro exI [of _ 1]) simp
  then have "determineGeoPackageZoomLevel (\<lambda>p. p) ?ws 2 ?box = Some 1"
    using determineGeoPackageZoomLevel_last_match [OF w, of ?ws 2 1] by blast
  then show ?thesis
    using m by simp
qed

text \<open>
  The claim C1 as it is worded fails: with the stored widths \<open>1, 2, 4\<close> of the zoom levels
  \<open>2, 1, 0\<close> and the requested width \<open>3\<close> the function returns zoom level \<open>1\<close>, whose
  width \<open>2\<close> is neither at least \<open>3\<close> nor within 0.1% of it; the largest zoom level whose
  width is at least \<open>3\<close> is \<open>0\<close>.
\<close>

theorem determineGeoPackageZoomLevel_counterexample:
  "determineGeoPackageZoomLevel (\<lambda>p. p) [1, 2, 4] 2
     \<lparr>minLongitude = 0, minLatitude = 0, maxLongitude = 3, maxLatitude = 3\<rparr> = Some 1 \<and>
   zoomLevel_spec 3 2 [1, 2, 4] = Some 0 \<and>
   \<not> qualifies_spec 3 ([1, 2, 4] ! 1)"
  by (simp add: determineGeoPackageZoomLevel_def zoomMatches_def zoomLevel_spec_def
      qualifies_spec_def)

subsection \<open>Overlap across the anti-meridian\<close>

lemma overlap_shifted:
  "overlap boundingBox boundingBox2 allowEmpty maxLon =
     overlap_bb boundingBox
       (boundingBox2
          \<lparr>minLongitude := minLongitude boundingBox2 +
             overlap_adjustment boundingBox boundingBox2 maxLon,
           maxLongitude := maxLongitude boundingBox2 +
             overlap_adjustment boundingBox boundingBox2 maxLon\<rparr>) allowEmpty"
  by (simp add: overlap_def Let_def)

text \<open>
  C5 (amended). In \<open>overlap(BoundingBox(170,-10,180,10), BoundingBox(-180,-10,-170,10),
  allowEmpty, 180)\<close> the second box is shifted by \<open>2 \<cdot> 180\<close> to \<open>[180, 190]\<close>, which only
  touches the first box at the longitude \<open>180\<close>. With \<open>allowEmpty = true\<close> the call
  returns the box \<open>(180, -10, 180, 10)\<close> of width zero; with \<open>allowEmpty = false\<close> it returns
  none. With \<open>maxLongitude \<le> 0\<close> there is no shift and the call returns none for either
  value of \<open>allowEmpty\<close>.
\<close>

theorem overlap_antimeridian:
  "overlap \<lparr>minLongitude = 170, minLatitude = - 10, maxLongitude = 180, maxLatitude = 10\<rparr>
     \<lparr>minLongitude = - 180, minLatitude = - 10, maxLongitude = - 170, maxLatitude = 10\<rparr> True 180 =
     Some \<lparr>minLongitude = 180, minLatitude = - 10, maxLongitude = 180, maxLatitude = 10\<rparr> \<and>
   overlap \<lparr>minLongitude = 170, minLatitude = - 10, maxLongitude = 180, maxLatitude = 10\<rparr>
     \<lparr>minLongitude = - 180, minLatitude = - 10, maxLongitude = - 170, maxLatitude = 10\<rparr> False 180 = None \<and>
   overlap_adjustment \<lparr>minLongitude = 170, minLatitude = - 10, maxLongitude = 180, maxLatitude = 10\<rparr>
     \<lparr>minLongitude = - 180, minLatitude = - 10, maxLongitude = - 170, maxLatitude = 10\<rparr> 180 = 2 * 180 \<and>
   (\<forall>m. m \<le> 0 \<longrightarrow>
      overlap \<lparr>minLongitude = 170, minLatitude = - 10, maxLongitude = 180, maxLatitude = 10\<rparr>
        \<lparr>minLongitude = - 180, minLatitude = - 10, maxLongitude = - 170, maxLatitude = 10\<rparr> False m = None \<and>
      overlap \<lparr>minLongitude = 170, minLatitude = - 10, maxLongitude = 180, maxLatitude = 10\<rparr>
        \<lparr>minLongitude = - 180, minLatitude = - 10, maxLongitude = - 170, maxLatitude = 10\<rparr> True m = None)"
  by (simp add: overlap_def overlap_adjustment_def overlap_bb_def)

theorem overlap_antimeridian_witness:
  "overlap \<lparr>minLongitude = 170, minLatitude = - 10, maxLongitude = 180, maxLatitude = 10\<rparr>
     \<lparr>minLongitude = - 180, minLatitude = - 10, maxLongitude = - 170, maxLatitude = 10\<rparr> False 0 = None \<and>
   overlap \<lparr>minLongitude = 170, minLatitude = - 10, maxLongitude = 180, maxLatitude = 10\<rparr>
     \<lparr>minLongitude = - 180, minLatitude = - 10, maxLongitude = - 170, maxLatitude = 10\<rparr> True (- 180) = None \<and>
   overlap \<lparr>minLongitude = 170, minLatitude = - 10, maxLongitude = 180, maxLatitude = 10\<rparr>
     \<lparr>minLongitude = - 180, minLatitude = - 10, maxLongitude = - 170, maxLatitude = 10\<rparr> True 180 \<noteq> None"
  using overlap_antimeridian by simp

text \<open>
  The claim C5 as it is worded fails: with \<open>allowEmpty = false\<close> and \<open>maxLongitude = 180\<close>
  the shifted second box \<open>[180, 190]\<close> and the first box \<open>[170, 180]\<close> share the longitude
  \<open>180\<close> only, an empty range, and the call returns none.
\<close>

theorem overlap_antimeridian_counterexample:
  "overlap_adjustment \<lparr>minLongitude = 170, minLatitude = - 10, maxLongitude = 180, maxLatitude = 10\<rparr>
     \<lparr>minLongitude = - 180, minLatitude = - 10, maxLongitude = - 170, maxLatitude = 10\<rparr> 180 = 360 \<and>
   overlap \<lparr>minLongitude = 170, minLatitude = - 10, maxLongitude = 180, maxLatitude = 10\<rparr>
     \<lparr>minLongitude = - 180, minLatitude = - 10, maxLongitude = - 170, maxLatitude = 10\<rparr> False 180 = None"
  by (simp add: overlap_def overlap_adjustment_def overlap_bb_def)

text \<open>
  The shift has the sign that brings the second box next to the first, and boxes that
  share more than an edge after the shift overlap without \<open>allowEmpty\<close>.
\<close>

lemma overlap_antimeridian_other_cases:
  "overlap \<lparr>minLongitude = - 180, minLatitude = - 10, maxLongitude = - 170, maxLatitude = 10\<rparr>
     \<lparr>minLongitude = 170, minLatitude = - 10, maxLongitude = 180, maxLatitude = 10\<rparr> True 180 =
     Some \<lparr>minLongitude = - 180, minLatitude = - 10, maxLongitude = - 180, maxLatitude = 10\<rparr>"
  "overlap \<lparr>minLongitude = 170, minLatitude = - 10, maxLongitude = 190, maxLatitude = 10\<rparr>
     \<lparr>minLongitude = - 180, minLatitude = - 10, maxLongitude = - 170, maxLatitude = 10\<rparr> False 180 =
     Some \<lparr>minLongitude = 180, minLatitude = - 10, maxLongitude = 190, maxLatitude = 10\<rparr>"
  "overlap \<lparr>minLongitude = 170, minLatitude = - 10, maxLongitude = 180, maxLatitude = 10\<rparr>
     \<lparr>minLongitude = 175, minLatitude = 0, maxLongitude = 185, maxLatitude = 20\<rparr> False 180 =
     Some \<lparr>minLongitude = 175, minLatitude = 0, maxLongitude = 180, maxLatitude = 10\<rparr>"
  by (simp_all add: overlap_def overlap_adjustment_def overlap_bb_def)

subsection \<open>Pixel mapping\<close>

text \<open>
  C6 (amended). \<^verbatim>\<open>getXPixel\<close> and \<^verbatim>\<open>getYPixel\<close> have no guard for a degenerate range:
  for every bounding box with \<open>maxX = minX\<close> (\<open>maxY = minY\<close>), every raster size and every
  coordinate they divide by zero, and the pixel value they return is not finite
  (\<^verbatim>\<open>Infinity\<close>, \<^verbatim>\<open>-Infinity\<close> or \<^verbatim>\<open>NaN\<close>).
\<close>

theorem pixel_division_by_zero:
  "(maxLongitude boundingBox = minLongitude boundingBox \<longrightarrow>
      getXPixel width boundingBox longitude = None) \<and>
   (maxLatitude boundingBox = minLatitude boundingBox \<longrightarrow>
      getYPixel height boundingBox latitude = None)"
  by (simp add: getXPixel_def getYPixel_def js_divide_def width_bb_def height_bb_def)

theorem pixel_division_by_zero_witness:
  "getXPixel 100 \<lparr>minLongitude = 5, minLatitude = 1, maxLongitude = 5, maxLatitude = 1\<rparr> 7 = None \<and>
   getYPixel 100 \<lparr>minLongitude = 5, minLatitude = 1, maxLongitude = 5, maxLatitude = 1\<rparr> 3 = None"
  using pixel_division_by_zero
    [of "\<lparr>minLongitude = 5, minLatitude = 1, maxLongitude = 5, maxLatitude = 1\<rparr>" 100 7 100 3]
  by simp

text \<open>
  The claim C6 as it is worded fails: for the box \<open>(0, 0, 0, 0)\<close>, where \<open>maxX = minX\<close>,
  the raster size \<open>256\<close> and the coordinate \<open>1\<close>, the quotient is \<open>1 / 0\<close> and the pixel
  is not finite.
\<close>

theorem pixel_division_by_zero_counterexample:
  "maxLongitude \<lparr>minLongitude = 0, minLatitude = 0, maxLongitude = 0, maxLatitude = 0\<rparr> =
     minLongitude \<lparr>minLongitude = 0, minLatitude = 0, maxLongitude = 0, maxLatitude = 0\<rparr> \<and>
   getXPixel 256 \<lparr>minLongitude = 0, minLatitude = 0, maxLongitude = 0, maxLatitude = 0\<rparr> 1 = None \<and>
   getYPixel 256 \<lparr>minLongitude = 0, minLatitude = 0, maxLongitude = 0, maxLatitude = 0\<rparr> 1 = None"
  by (simp add: getXPixel_def getYPixel_def js_divide_def width_bb_def height_bb_def)

text \<open>
  C7. For every bounding box \<open>B\<close> with positive width and height, every positive raster
  width and height and every coordinate: \<^verbatim>\<open>getXPixel(width, B, longitude)\<close> followed by
  \<^verbatim>\<open>getLongitudeFromPixel(width, B, B, pixel)\<close> returns the longitude, and
  \<^verbatim>\<open>getYPixel\<close> followed by \<^verbatim>\<open>getLatitudeFromPixel\<close> returns the latitude (exactly, in
  real arithmetic).
\<close>

theorem pixel_round_trip:
  assumes "0 < width_bb B" and "0 < height_bb B" and "0 < width" and "0 < height"
  shows "Option.bind (getXPixel width B longitude) (getLongitudeFromPixel width B B) =
           Some longitude \<and>
         Option.bind (getYPixel height B latitude) (getLatitudeFromPixel height B B) =
           Some latitude"
  using assms
  by (simp add: getXPixel_def getLongitudeFromPixel_def getYPixel_def getLatitudeFromPixel_def
      js_divide_def)

theorem pixel_round_trip_witness:
  "Option.bind
     (getXPixel 256 \<lparr>minLongitude = 0, minLatitude = 0, maxLongitude = 2, maxLatitude = 2\<rparr> (1 / 2))
     (getLongitudeFromPixel 256
        \<lparr>minLongitude = 0, minLatitude = 0, maxLongitude = 2, maxLatitude = 2\<rparr>
        \<lparr>minLongitude = 0, minLatitude = 0, maxLongitude = 2, maxLatitude = 2\<rparr>) = Some (1 / 2) \<and>
   Option.bind
     (getYPixel 256 \<lparr>minLongitude = 0, minLatitude = 0, maxLongitude = 2, maxLatitude = 2\<rparr> (3 / 2))
     (getLatitudeFromPixel 256
        \<lparr>minLongitude = 0, minLatitude = 0, maxLongitude = 2, maxLatitude = 2\<rparr>
        \<lparr>minLongitude = 0, minLatitude = 0, maxLongitude = 2, maxLatitude = 2\<rparr>) = Some (3 / 2) \<and>
   getXPixel 256 \<lparr>minLongitude = 0, minLatitude = 0, maxLongitude = 2, maxLatitude = 2\<rparr> (1 / 2) = Some 64"
proof -
  let ?B = "\<lparr>minLongitude = 0, minLatitude = 0, maxLongitude = 2, maxLatitude = 2\<rparr>"
  have h: "0 < width_bb ?B" "0 < height_bb ?B" "(0 :: real) < 256" "(0 :: real) < 256"
    by (simp_all add: width_bb_def height_bb_def)
  have "getXPixel 256 ?B (1 / 2) = Some 64"
    by (simp add: getXPixel_def js_divide_def width_bb_def)
  then show ?thesis
    using pixel_round_trip [OF h, of "1 / 2" "3 / 2"] by simp
qed

subsection \<open>Retrieval without a tile matrix\<close>

text \<open>
  C8. When the tile DAO has no tile matrix for the zoom level of the request,
  \<^verbatim>\<open>getTileWithBounds\<close> completes with the empty result and not with a failure, and no
  collaborator is called: no reprojection, no storage query, no drawing and no encoding.
  \<^verbatim>\<open>retrieveTileResults\<close> without a tile matrix does not query the storage either.
\<close>

theorem no_tile_matrix_no_tile:
  assumes "getTileMatrixWithZoomLevel dao zoom = None"
  shows "getTileWithBounds dao width height targetBoundingBox zoom targetProjection canvas =
           (Inr None, []) \<and>
         retrieveTileResults dao tileMatrixProjectionBoundingBox None = (Inr None, [])"
  using assms by (simp add: getTileWithBounds_def retrieveTileResults_def)

theorem no_tile_matrix_no_tile_witness:
  "getTileWithBounds
     (\<lparr>getTileMatrixWithZoomLevel = (\<lambda>zoom. None),
       totalBoundingBox = \<lparr>minLongitude = 0, minLatitude = 0, maxLongitude = 2, maxLatitude = 2\<rparr>,
       projection = ''EPSG:3857'',
       projectBoundingBox = (\<lambda>box source target. Inr box),
       queryByTileGrid = (\<lambda>tileGrid zoom. Inr []),
       getCompleteTile = length\<rparr> :: (nat, nat) Collaborators)
     256 256 \<lparr>minLongitude = 0, minLatitude = 0, maxLongitude = 1, maxLatitude = 1\<rparr> (Some 3)
     ''EPSG:3857'' False = (Inr None, [])"
proof -
  let ?dao = "\<lparr>getTileMatrixWithZoomLevel = (\<lambda>zoom. None),
       totalBoundingBox = \<lparr>minLongitude = 0, minLatitude = 0, maxLongitude = 2, maxLatitude = 2\<rparr>,
       projection = ''EPSG:3857'',
       projectBoundingBox = (\<lambda>box source target. Inr box),
       queryByTileGrid = (\<lambda>tileGrid zoom. Inr []),
       getCompleteTile = length\<rparr> :: (nat, nat) Collaborators"
  have h: "getTileMatrixWithZoomLevel ?dao (Some 3) = None"
    by simp
  show ?thesis
    using no_tile_matrix_no_tile [OF h] by blast
qed

text \<open>With a tile matrix the tile creator is initialised.\<close>

lemma getTileWithBounds_with_matrix:
  assumes "getTileMatrixWithZoomLevel dao zoom = Some tileMatrix"
  shows "snd (getTileWithBounds dao width height targetBoundingBox zoom targetProjection canvas)
         \<noteq> []"
  using assms
  by (auto simp add: getTileWithBounds_def Let_def split: sum.splits prod.splits option.splits)

subsection \<open>Overlap does not write to its arguments\<close>

text \<open>
  C9. For every heap, every two bounding boxes in it (they may be the same object), every
  \<open>allowEmpty\<close> and every \<open>maxLongitude\<close>: after \<^verbatim>\<open>overlap\<close> every object of the heap, and
  so each of the two arguments, holds the bounds it had before. When the anti-meridian
  adjustment applies, the shifted box is a new object, the copy of the second box. The
  box returned is the one of the function on values.
\<close>

theorem overlap_heap_frame:
  assumes "boundingBox < length h" and "boundingBox2 < length h"
  shows "take (length h) (snd (overlap_heap h boundingBox boundingBox2 allowEmpty maxLon)) = h \<and>
         snd (overlap_heap h boundingBox boundingBox2 allowEmpty maxLon) ! boundingBox =
           h ! boundingBox \<and>
         snd (overlap_heap h boundingBox boundingBox2 allowEmpty maxLon) ! boundingBox2 =
           h ! boundingBox2 \<and>
         (overlap_adjustment (h ! boundingBox) (h ! boundingBox2) maxLon \<noteq> 0 \<longrightarrow>
            length h < length (snd (overlap_heap h boundingBox boundingBox2 allowEmpty maxLon)) \<and>
            snd (overlap_heap h boundingBox boundingBox2 allowEmpty maxLon) ! length h =
              (h ! boundingBox2)
                \<lparr>minLongitude := minLongitude (h ! boundingBox2) +
                   overlap_adjustment (h ! boundingBox) (h ! boundingBox2) maxLon,
                 maxLongitude := maxLongitude (h ! boundingBox2) +
                   overlap_adjustment (h ! boundingBox) (h ! boundingBox2) maxLon\<rparr>) \<and>
         map_option ((!) (snd (overlap_heap h boundingBox boundingBox2 allowEmpty maxLon)))
           (fst (overlap_heap h boundingBox boundingBox2 allowEmpty maxLon)) =
           overlap (h ! boundingBox) (h ! boundingBox2) allowEmpty maxLon"
proof -
  define adj where "adj = overlap_adjustment (h ! boundingBox) (h ! boundingBox2) maxLon"
  define shifted where "shifted = (h ! boundingBox2)
      \<lparr>minLongitude := minLongitude (h ! boundingBox2) + adj,
       maxLongitude := maxLongitude (h ! boundingBox2) + adj\<rparr>"
  define res where "res = overlap_heap h boundingBox boundingBox2 allowEmpty maxLon"
  have prefix: "take (length h) (snd res) = h"
    and shift: "adj \<noteq> 0 \<longrightarrow> length h < length (snd res) \<and> snd res ! length h = shifted"
    and val: "map_option ((!) (snd res)) (fst res) =
              overlap (h ! boundingBox) (h ! boundingBox2) allowEmpty maxLon"
  proof -
    show "take (length h) (snd res) = h"
      using assms
      by (simp add: res_def overlap_heap_def Let_def overlap_method_def copy_bb_def
          setMinLongitude_def setMaxLongitude_def split: option.splits)
    show "adj \<noteq> 0 \<longrightarrow> length h < length (snd res) \<and> snd res ! length h = shifted"
      using assms
      by (simp add: res_def overlap_heap_def Let_def overlap_method_def copy_bb_def
          setMinLongitude_def setMaxLongitude_def adj_def shifted_def nth_append
          split: option.splits)
    show "map_option ((!) (snd res)) (fst res) =
          overlap (h ! boundingBox) (h ! boundingBox2) allowEmpty maxLon"
      using assms
      by (simp add: res_def overlap_heap_def overlap_def Let_def overlap_method_def copy_bb_def
          setMinLongitude_def setMaxLongitude_def nth_append split: option.splits)
  qed
  have nth: "snd res ! r = h ! r" if "r < length h" for r
  proof -
    have "take (length h) (snd res) ! r = snd res ! r"
      using that by simp
    then show ?thesis
      by (simp only: prefix)
  qed
  show ?thesis
    using prefix nth [OF assms(1)] nth [OF assms(2)] shift val
    by (simp only: res_def adj_def shifted_def)
qed

theorem overlap_heap_frame_witness:
  "snd (overlap_heap
     [\<lparr>minLongitude = 170, minLatitude = - 10, maxLongitude = 180, maxLatitude = 10\<rparr>,
      \<lparr>minLongitude = - 180, minLatitude = - 10, maxLongitude = - 170, maxLatitude = 10\<rparr>]
     0 1 False 180) ! 0 =
     \<lparr>minLongitude = 170, minLatitude = - 10, maxLongitude = 180, maxLatitude = 10\<rparr> \<and>
   snd (overlap_heap
     [\<lparr>minLongitude = 170, minLatitude = - 10, maxLongitude = 180, maxLatitude = 10\<rparr>,
      \<lparr>minLongitude = - 180, minLatitude = - 10, maxLongitude = - 170, maxLatitude = 10\<rparr>]
     0 1 False 180) ! 1 =
     \<lparr>minLongitude = - 180, minLatitude = - 10, maxLongitude = - 170, maxLatitude = 10\<rparr> \<and>
   snd (overlap_heap
     [\<lparr>minLongitude = 170, minLatitude = - 10, maxLongitude = 180, maxLatitude = 10\<rparr>,
      \<lparr>minLongitude = - 180, minLatitude = - 10, maxLongitude = - 170, maxLatitude = 10\<rparr>]
     0 1 False 180) ! 2 =
     \<lparr>minLongitude = 180, minLatitude = - 10, maxLongitude = 190, maxLatitude = 10\<rparr>"
proof -
  let ?h = "[\<lparr>minLongitude = 170, minLatitude = - 10, maxLongitude = 180, maxLatitude = 10\<rparr>,
      \<lparr>minLongitude = - 180, minLatitude = - 10, maxLongitude = - 170, maxLatitude = 10\<rparr>]"
  have h: "0 < length ?h" "1 < length ?h"
    by simp_all
  have adj: "overlap_adjustment (?h ! 0) (?h ! 1) 180 = 360"
    by (simp add: overlap_adjustment_def)
  show ?thesis
    using overlap_heap_frame [OF h, of False 180] adj by (simp add: numeral_2_eq_2)
qed

end
